theory Spec2Isabelle
  imports Main "HOL-Library.Sublist" "HOL-Library.Multiset"
    "HOL-Library.Char_ord" "HOL-Library.List_Lexorder"
begin

section \<open>Data model\<close>

text \<open>
  The store (part_002, the SQL schema) holds a \<open>products\<close> table and a \<open>movements\<close>
  table. Of a product row the pages read the columns \<open>id\<close>, \<open>name\<close>, \<open>category\<close>,
  \<open>quantity\<close> and \<open>min_stock\<close> (the \<open>Product\<close> interface of the dashboard); the other
  columns are never read or written by the functions below and are left out.
  \<open>quantity\<close> and \<open>min_stock\<close> are \<open>INTEGER\<close> columns.
\<close>

record product_row =
  row_id :: string
  row_name :: string
  row_category :: string
  row_quantity :: int
  row_min_stock :: int

text \<open>The \<open>type\<close> column of a movement: \<open>'entrada'\<close> (inbound) or \<open>'saida'\<close> (outbound).\<close>

datatype movement_type = Entrada | Saida

text \<open>
  A row of \<open>movements\<close> as the movements page inserts it. The store assigns \<open>id\<close> and
  \<open>created_at\<close> by column defaults; \<open>notes\<close> is nullable.
\<close>

record movement_row =
  m_product_id :: string
  m_type :: movement_type
  m_quantity :: int
  m_responsible_id :: string
  m_responsible_name :: string
  m_notes :: "string option"

record db =
  db_products :: "product_row list"
  db_movements :: "movement_row list"

text \<open>The movements page (part_000): its \<open>Product\<close> interface and its React state.\<close>

record product =
  p_id :: string
  p_name :: string
  p_quantity :: int

record form_data =
  f_product_id :: string
  f_type :: movement_type
  f_quantity :: int
  f_notes :: string

record auth_user =
  user_id :: string

record profile_data =
  full_name :: string

record client =
  products :: "product list"
  dialogOpen :: bool
  profile :: "profile_data option"
  user :: "auth_user option"
  formData :: form_data

text \<open>Notifications: \<open>toast.error(msg)\<close> and \<open>toast.success(msg)\<close>.\<close>

datatype toast = toast_error string | toast_success string

text \<open>
  The outcome of the three requests a submission sends to the store is decided outside
  the page; each may report an error. A request that reports an error changes nothing.
\<close>

record env =
  update_error :: bool
  insert_error :: bool
  fetch_error :: bool

section \<open>The store's requests\<close>

text \<open>
  \<open>supabase.from("products").update({ quantity: newQuantity }).eq("id", id)\<close>:
  every row with that id gets the new quantity (\<open>set_quantity\<close>). The result of the
  request is the error flag and the store afterwards.
\<close>

definition set_quantity :: "string \<Rightarrow> int \<Rightarrow> db \<Rightarrow> db" where
  "set_quantity pid newQuantity d =
     d\<lparr>db_products :=
         map (\<lambda>r. if row_id r = pid then r\<lparr>row_quantity := newQuantity\<rparr> else r)
           (db_products d)\<rparr>"

definition update_quantity :: "env \<Rightarrow> string \<Rightarrow> int \<Rightarrow> db \<Rightarrow> bool \<times> db" where
  "update_quantity e pid newQuantity d =
     (if update_error e then (True, d) else (False, set_quantity pid newQuantity d))"

text \<open>
  \<open>supabase.from("movements").insert([row])\<close>: the row is appended to the log. The
  schema declares \<open>product_id REFERENCES products(id)\<close>, so the store reports an error
  for a product id that no product row has.
\<close>

definition insert_movement :: "env \<Rightarrow> movement_row \<Rightarrow> db \<Rightarrow> bool \<times> db" where
  "insert_movement e m d =
     (if insert_error e \<or> m_product_id m \<notin> row_id ` set (db_products d) then (True, d)
      else (False, d\<lparr>db_movements := db_movements d @ [m]\<rparr>))"

text \<open>
  \<open>select("id, name, quantity").order("name")\<close>. The collation is the store's; it is
  modelled as the lexicographic order on character codes (no result below depends on
  the order of the list).
\<close>

definition select_products :: "db \<Rightarrow> product list" where
  "select_products d =
     map (\<lambda>r. \<lparr>p_id = row_id r, p_name = row_name r, p_quantity = row_quantity r\<rparr>)
       (sort_key row_name (db_products d))"

section \<open>The movements page\<close>

definition msg_load_products :: string where
  "msg_load_products = ''Erro ao carregar produtos''"

definition msg_unauthenticated :: string where
  "msg_unauthenticated = ''Usu'' @ [CHR 0xE1] @ ''rio n'' @ [CHR 0xE3] @ ''o autenticado''"

definition msg_not_found :: string where
  "msg_not_found = ''Produto n'' @ [CHR 0xE3] @ ''o encontrado''"

definition msg_insufficient :: string where
  "msg_insufficient = ''Quantidade insuficiente em estoque''"

definition msg_register_failed :: string where
  "msg_register_failed = ''Erro ao registrar movimenta'' @ [CHR 0xE7, CHR 0xE3] @ ''o''"

definition msg_registered :: string where
  "msg_registered =
     ''Movimenta'' @ [CHR 0xE7, CHR 0xE3] @ ''o registrada com sucesso!''"

text \<open>
  \<open>fetchProducts\<close>: on an error the catch block shows a toast and the product list
  keeps its previous content.
\<close>

definition fetchProducts :: "env \<Rightarrow> client \<Rightarrow> db \<Rightarrow> toast list \<times> client" where
  "fetchProducts e c d =
     (if fetch_error e then ([toast_error msg_load_products], c)
      else ([], c\<lparr>products := select_products d\<rparr>))"

definition resetForm :: "client \<Rightarrow> client" where
  "resetForm c =
     c\<lparr>formData := \<lparr>f_product_id = '''', f_type = Entrada, f_quantity = 1, f_notes = ''''\<rparr>\<rparr>"


text \<open>
  \<open>handleSubmit\<close>, lines 83 to 142. The result is the toasts shown (in order), the
  page's state and the store afterwards. The product is looked up in the page's own
  product list (\<open>products.find\<close>), as last fetched; the new quantity is computed from
  that entry. The balance update is sent first and the movement insert second, as two
  requests; an error of either is thrown into the same catch block. The page state
  in the result of a successful submission is the state once the refresh it starts
  (\<open>fetchProducts()\<close>, not awaited) has finished; a submission sent before that reads
  the earlier state. Values outside the range of the \<open>INTEGER\<close> column and the row
  level policies are among the errors the store may report.
\<close>

definition handleSubmit :: "env \<Rightarrow> client \<Rightarrow> db \<Rightarrow> toast list \<times> client \<times> db" where
  "handleSubmit e c d =
     (case (user c, profile c) of
        (Some u, Some pr) \<Rightarrow>
          (case find (\<lambda>p. p_id p = f_product_id (formData c)) (products c) of
             None \<Rightarrow> ([toast_error msg_not_found], c, d)
           | Some selectedProduct \<Rightarrow>
               if f_type (formData c) = Saida
                  \<and> f_quantity (formData c) > p_quantity selectedProduct
               then ([toast_error msg_insufficient], c, d)
               else
                 let newQuantity =
                       (if f_type (formData c) = Entrada
                        then p_quantity selectedProduct + f_quantity (formData c)
                        else p_quantity selectedProduct - f_quantity (formData c));
                     (updateError, d1) =
                       update_quantity e (f_product_id (formData c)) newQuantity d
                 in if updateError then ([toast_error msg_register_failed], c, d1)
                    else
                      let (insertError, d2) =
                            insert_movement e
                              \<lparr>m_product_id = f_product_id (formData c),
                               m_type = f_type (formData c),
                               m_quantity = f_quantity (formData c),
                               m_responsible_id = user_id u,
                               m_responsible_name = full_name pr,
                               m_notes = (if f_notes (formData c) = '''' then None
                                          else Some (f_notes (formData c)))\<rparr> d1
                      in if insertError then ([toast_error msg_register_failed], c, d2)
                         else
                           let (ts, c') = fetchProducts e (resetForm (c\<lparr>dialogOpen := False\<rparr>)) d2
                           in (toast_success msg_registered # ts, c', d2))
      | _ \<Rightarrow> ([toast_error msg_unauthenticated], c, d))"

text \<open>
  A run of submissions, each with the state of the page it is sent from, whose writes
  reach the store one submission after the other. The pages may be different browser
  tabs or users, or one page at different moments: nothing in \<open>handleSubmit\<close> fetches
  the product list before the balance is computed, the refresh after a success is not
  awaited and the submit button is never disabled, so a page can submit again (a double
  click) with the state the previous submission read.
\<close>

fun submit_each :: "(env \<times> client) list \<Rightarrow> db \<Rightarrow> toast list list \<times> db" where
  "submit_each [] d = ([], d)"
| "submit_each ((e, c) # rs) d =
     (case handleSubmit e c d of
        (ts, c', d1) \<Rightarrow> (case submit_each rs d1 of (tss, d2) \<Rightarrow> (ts # tss, d2)))"

section \<open>The history page\<close>

text \<open>
  part_001: the \<open>Movement\<close> interface (a row of \<open>movements\<close> joined with the name and
  category of its product) and the page's state.
\<close>

record movement_product =
  mp_name :: string
  mp_category :: string

record movement =
  h_id :: string
  h_type :: string
  h_quantity :: int
  h_responsible_name :: string
  h_notes :: "string option"
  h_created_at :: string
  h_products :: movement_product

record history =
  movements :: "movement list"
  filteredMovements :: "movement list"
  loading :: bool
  searchTerm :: string
  typeFilter :: string

text \<open>
  \<open>String.prototype.includes\<close>: the argument occurs in the string as a contiguous run of
  code units; the empty string occurs in every string.
\<close>

fun str_includes :: "'a list \<Rightarrow> 'a list \<Rightarrow> bool" where
  "str_includes [] t = (t = [])"
| "str_includes (x # xs) t = (prefix t (x # xs) \<or> str_includes xs t)"

text \<open>
  \<open>filterMovements\<close>, lines 69 to 87. It reads \<open>movements\<close>, \<open>searchTerm\<close> and
  \<open>typeFilter\<close> and stores its result with \<open>setFilteredMovements\<close>. An empty search
  term is falsy and skips the first filter. \<open>String.prototype.toLowerCase\<close> belongs to
  the language and is passed as a parameter.
\<close>

definition filterMovements :: "(string \<Rightarrow> string) \<Rightarrow> history \<Rightarrow> history" where
  "filterMovements toLowerCase h =
     (let filtered = movements h;
          filtered =
            (if searchTerm h \<noteq> '''' then
               filter (\<lambda>m.
                   str_includes (toLowerCase (mp_name (h_products m))) (toLowerCase (searchTerm h))
                   \<or> str_includes (toLowerCase (h_responsible_name m)) (toLowerCase (searchTerm h)))
                 filtered
             else filtered);
          filtered =
            (if typeFilter h \<noteq> ''all'' then filter (\<lambda>m. h_type m = typeFilter h) filtered
             else filtered)
      in h\<lparr>filteredMovements := filtered\<rparr>)"

section \<open>The dashboard\<close>

text \<open>
  \<open>Array.prototype.sort\<close> with a comparator is stable. For the comparator used here
  (a difference of integers) the stable result is unique; it is computed by insertion,
  an element going before the first element that does not compare below it.
\<close>

fun insort_cmp :: "('a \<Rightarrow> 'a \<Rightarrow> int) \<Rightarrow> 'a \<Rightarrow> 'a list \<Rightarrow> 'a list" where
  "insort_cmp cmp x [] = [x]"
| "insort_cmp cmp x (y # ys) = (if cmp x y \<le> 0 then x # y # ys else y # insort_cmp cmp x ys)"

definition sort_cmp :: "('a \<Rightarrow> 'a \<Rightarrow> int) \<Rightarrow> 'a list \<Rightarrow> 'a list" where
  "sort_cmp cmp xs = foldr (insort_cmp cmp) xs []"

text \<open>
  The low stock list of \<open>fetchDashboardData\<close> (src/App.tsx, lines 592 to 602):
  \<open>(allProducts || []).filter(p => p.quantity <= p.min_stock)
  .sort((a, b) => a.quantity - b.quantity).slice(0, 5)\<close>.
  \<open>allProducts\<close> is \<open>null\<close> when the request failed.
\<close>

definition lowStock :: "product_row list option \<Rightarrow> product_row list" where
  "lowStock allProducts =
     take 5
       (sort_cmp (\<lambda>a b. row_quantity a - row_quantity b)
          (filter (\<lambda>p. row_quantity p \<le> row_min_stock p)
             (case allProducts of None \<Rightarrow> [] | Some ps \<Rightarrow> ps)))"

section \<open>Notions used to state the properties\<close>

text \<open>The stored quantity of a product: the \<open>quantity\<close> column of the row with that id.\<close>

definition quantity_of :: "db \<Rightarrow> string \<Rightarrow> int option" where
  "quantity_of d pid = map_option row_quantity (find (\<lambda>r. row_id r = pid) (db_products d))"

text \<open>A submission succeeded when its first toast is the success message.\<close>

definition succeeded :: "toast list \<Rightarrow> bool" where
  "succeeded ts = (case ts of t # _ \<Rightarrow> t = toast_success msg_registered | [] \<Rightarrow> False)"

text \<open>The entry that \<open>products.find((p) => p.id === formData.product_id)\<close> returns.\<close>

definition listed :: "client \<Rightarrow> product option" where
  "listed c = find (\<lambda>p. p_id p = f_product_id (formData c)) (products c)"

text \<open>The \<open>newQuantity\<close> that \<open>handleSubmit\<close> computes from the listed entry.\<close>

definition newQuantity :: "form_data \<Rightarrow> product \<Rightarrow> int" where
  "newQuantity f sp = (if f_type f = Entrada then p_quantity sp + f_quantity f else p_quantity sp - f_quantity f)"

text \<open>The row that \<open>handleSubmit\<close> inserts into \<open>movements\<close>.\<close>

definition new_movement :: "client \<Rightarrow> auth_user \<Rightarrow> profile_data \<Rightarrow> movement_row" where
  "new_movement c u pr = \<lparr>m_product_id = f_product_id (formData c),
                               m_type = f_type (formData c),
                               m_quantity = f_quantity (formData c),
                               m_responsible_id = user_id u,
                               m_responsible_name = full_name pr,
                               m_notes = (if f_notes (formData c) = '''' then None
                                          else Some (f_notes (formData c)))\<rparr>"

text \<open>The page's product list is what \<open>fetchProducts\<close> would read from the store now.\<close>

definition in_sync :: "client \<Rightarrow> db \<Rightarrow> bool" where
  "in_sync c d \<longleftrightarrow> products c = select_products d"

text \<open>
  Every submission of a run reads a product list that equals the store's products at the
  moment its own writes are applied: no write of an earlier submission falls between
  the fetch of that list and these writes.
\<close>

fun fresh_at_each :: "(env \<times> client) list \<Rightarrow> db \<Rightarrow> bool" where
  "fresh_at_each [] d = True"
| "fresh_at_each ((e, c) # rs) d =
     (in_sync c d \<and> fresh_at_each rs (snd (snd (handleSubmit e c d))))"


text \<open>The inbound and the outbound quantities requested for a product in a list of forms.\<close>

definition inbound_total :: "string \<Rightarrow> form_data list \<Rightarrow> int" where
  "inbound_total pid fs =
     sum_list (map f_quantity (filter (\<lambda>f. f_product_id f = pid \<and> f_type f = Entrada) fs))"

definition outbound_total :: "string \<Rightarrow> form_data list \<Rightarrow> int" where
  "outbound_total pid fs =
     sum_list (map f_quantity (filter (\<lambda>f. f_product_id f = pid \<and> f_type f = Saida) fs))"

text \<open>
  What the history filter is meant to select: the name contains the term when both are
  lowercased, and the type is the selected one.
\<close>

definition contains_ci :: "(string \<Rightarrow> string) \<Rightarrow> string \<Rightarrow> string \<Rightarrow> bool" where
  "contains_ci toLowerCase s t \<longleftrightarrow> (\<exists>before after. toLowerCase s = before @ toLowerCase t @ after)"

definition matches :: "(string \<Rightarrow> string) \<Rightarrow> string \<Rightarrow> string \<Rightarrow> movement \<Rightarrow> bool" where
  "matches toLowerCase term typ m \<longleftrightarrow>
     (term = '''' \<or> contains_ci toLowerCase (mp_name (h_products m)) term
        \<or> contains_ci toLowerCase (h_responsible_name m) term)
     \<and> (typ = ''all'' \<or> h_type m = typ)"

text \<open>
  Descending creation time. \<open>created_at\<close> is an ISO timestamp, whose order is the
  order of its characters.
\<close>

definition newest_first :: "movement \<Rightarrow> movement \<Rightarrow> bool" where
  "newest_first a b \<longleftrightarrow> h_created_at b \<le> h_created_at a"

text \<open>A product at or below its minimum stock, and the dashboard's query on a store.\<close>

definition is_low :: "product_row \<Rightarrow> bool" where
  "is_low p \<longleftrightarrow> row_quantity p \<le> row_min_stock p"

definition low_stock_query :: "db \<Rightarrow> product_row list" where
  "low_stock_query d = lowStock (Some (db_products d))"

section \<open>Example data\<close>

text \<open>Stores that accept every request, or report an error for one of them.\<close>

definition env_ok :: env where
  "env_ok = \<lparr>update_error = False, insert_error = False, fetch_error = False\<rparr>"

definition env_insert_fails :: env where
  "env_insert_fails = \<lparr>update_error = False, insert_error = True, fetch_error = False\<rparr>"

definition env_update_fails :: env where
  "env_update_fails = \<lparr>update_error = True, insert_error = False, fetch_error = False\<rparr>"

definition env_fetch_fails :: env where
  "env_fetch_fails = \<lparr>update_error = False, insert_error = False, fetch_error = True\<rparr>"

text \<open>A stock of two products, a signed-in page whose list is fresh, and a form.\<close>

definition demo_db :: "int \<Rightarrow> db" where
  "demo_db q =
     \<lparr>db_products =
        [\<lparr>row_id = ''p2'', row_name = ''Smart TV'', row_category = ''TVs'',
          row_quantity = 7, row_min_stock = 10\<rparr>,
         \<lparr>row_id = ''p1'', row_name = ''Notebook'', row_category = ''Laptops'',
          row_quantity = q, row_min_stock = 5\<rparr>],
      db_movements = []\<rparr>"

definition demo_form :: "movement_type \<Rightarrow> int \<Rightarrow> form_data" where
  "demo_form t q = \<lparr>f_product_id = ''p1'', f_type = t, f_quantity = q, f_notes = ''''\<rparr>"

definition demo_client :: "db \<Rightarrow> form_data \<Rightarrow> client" where
  "demo_client d f =
     \<lparr>products = select_products d, dialogOpen = True,
      profile = Some \<lparr>full_name = ''Ana''\<rparr>, user = Some \<lparr>user_id = ''u1''\<rparr>,
      formData = f\<rparr>"

text \<open>
  The page once a submission and the refresh it started have finished, with the form
  filled in again.
\<close>

definition next_page :: "env \<Rightarrow> client \<Rightarrow> db \<Rightarrow> form_data \<Rightarrow> client" where
  "next_page e c d f = (fst (snd (handleSubmit e c d)))\<lparr>formData := f\<rparr>"

text \<open>The stock after product p1 has been deleted.\<close>

definition demo_db_deleted :: db where
  "demo_db_deleted =
     \<lparr>db_products =
        [\<lparr>row_id = ''p2'', row_name = ''Smart TV'', row_category = ''TVs'',
          row_quantity = 7, row_min_stock = 10\<rparr>],
      db_movements = []\<rparr>"

text \<open>Eight products, seven of them at or below their minimum stock.\<close>

definition demo_products :: "product_row list" where
  "demo_products =
     map (\<lambda>(i, q, m). \<lparr>row_id = i, row_name = i, row_category = ''TVs'',
                        row_quantity = q, row_min_stock = m\<rparr>)
       [(''a'', 4, 10), (''b'', 9, 10), (''c'', 0, 10), (''d'', 2, 10),
        (''e'', 30, 10), (''f'', 2, 2), (''g'', 7, 8), (''h'', 1, 5)]"

text \<open>A movement log, newest first, with a search term and a type filter.\<close>

definition demo_history :: history where
  "demo_history =
     \<lparr>movements =
        [\<lparr>h_id = ''m4'', h_type = ''saida'', h_quantity = 2, h_responsible_name = ''Ana Souza'',
          h_notes = None, h_created_at = ''2024-03-04T09:30:00'',
          h_products = \<lparr>mp_name = ''Notebook'', mp_category = ''Laptops''\<rparr>\<rparr>,
         \<lparr>h_id = ''m3'', h_type = ''entrada'', h_quantity = 5, h_responsible_name = ''Ana Souza'',
          h_notes = Some ''reposicao'', h_created_at = ''2024-03-03T17:00:00'',
          h_products = \<lparr>mp_name = ''Smart TV'', mp_category = ''TVs''\<rparr>\<rparr>,
         \<lparr>h_id = ''m2'', h_type = ''saida'', h_quantity = 1, h_responsible_name = ''Bruno Lima'',
          h_notes = None, h_created_at = ''2024-03-02T11:15:00'',
          h_products = \<lparr>mp_name = ''Banana Phone'', mp_category = ''Phones''\<rparr>\<rparr>,
         \<lparr>h_id = ''m1'', h_type = ''saida'', h_quantity = 3, h_responsible_name = ''Bruno Lima'',
          h_notes = None, h_created_at = ''2024-03-01T08:00:00'',
          h_products = \<lparr>mp_name = ''Smart TV'', mp_category = ''TVs''\<rparr>\<rparr>],
      filteredMovements = [], loading = False, searchTerm = ''ANA'', typeFilter = ''saida''\<rparr>"

text \<open>Lowercasing of the letters A to Z, for the examples.\<close>

definition toLowerCase_ascii :: "string \<Rightarrow> string" where
  "toLowerCase_ascii s =
     map (\<lambda>c. case map_of (zip ''ABCDEFGHIJKLMNOPQRSTUVWXYZ'' ''abcdefghijklmnopqrstuvwxyz'') c of
                 Some l \<Rightarrow> l | None \<Rightarrow> c) s"

section \<open>The branches of \<open>handleSubmit\<close>\<close>

lemma msgs_distinct: "distinct [msg_unauthenticated, msg_not_found, msg_insufficient, msg_register_failed, msg_registered, msg_load_products]"
  by (simp add: msg_unauthenticated_def msg_not_found_def msg_insufficient_def msg_register_failed_def msg_registered_def msg_load_products_def)

lemma msg_neq:
  "msg_unauthenticated \<noteq> msg_not_found" "msg_unauthenticated \<noteq> msg_insufficient"
  "msg_unauthenticated \<noteq> msg_register_failed" "msg_not_found \<noteq> msg_unauthenticated"
  "msg_not_found \<noteq> msg_insufficient" "msg_not_found \<noteq> msg_register_failed"
  "msg_insufficient \<noteq> msg_unauthenticated" "msg_insufficient \<noteq> msg_not_found"
  "msg_insufficient \<noteq> msg_register_failed" "msg_register_failed \<noteq> msg_unauthenticated"
  "msg_register_failed \<noteq> msg_not_found" "msg_register_failed \<noteq> msg_insufficient"
  using msgs_distinct by auto

lemma succeeded_simps [simp]:
  "succeeded (toast_success msg_registered # ts)" "\<not> succeeded [toast_error m]"
  by (simp_all add: succeeded_def)

lemma handleSubmit_unauth:
  "user c = None \<or> profile c = None \<Longrightarrow> handleSubmit e c d = ([toast_error msg_unauthenticated], c, d)"
  by (auto simp: handleSubmit_def split: option.splits)

lemma handleSubmit_not_found:
  "user c = Some u \<Longrightarrow> profile c = Some pr \<Longrightarrow> listed c = None \<Longrightarrow>
   handleSubmit e c d = ([toast_error msg_not_found], c, d)"
  by (simp add: handleSubmit_def listed_def)

lemma handleSubmit_insufficient:
  "user c = Some u \<Longrightarrow> profile c = Some pr \<Longrightarrow> listed c = Some sp \<Longrightarrow>
   f_type (formData c) = Saida \<Longrightarrow> f_quantity (formData c) > p_quantity sp \<Longrightarrow>
   handleSubmit e c d = ([toast_error msg_insufficient], c, d)"
  by (simp add: handleSubmit_def listed_def)

lemma handleSubmit_writes:
  "user c = Some u \<Longrightarrow> profile c = Some pr \<Longrightarrow> listed c = Some sp \<Longrightarrow>
   \<not> (f_type (formData c) = Saida \<and> f_quantity (formData c) > p_quantity sp) \<Longrightarrow>
   handleSubmit e c d =
     (case update_quantity e (f_product_id (formData c)) (newQuantity (formData c) sp) d of
        (updateError, d1) \<Rightarrow>
          if updateError then ([toast_error msg_register_failed], c, d1)
          else (case insert_movement e (new_movement c u pr) d1 of
             (insertError, d2) \<Rightarrow>
               if insertError then ([toast_error msg_register_failed], c, d2)
               else (case fetchProducts e (resetForm (c\<lparr>dialogOpen := False\<rparr>)) d2 of
                       (ts, c') \<Rightarrow> (toast_success msg_registered # ts, c', d2))))"
  by (cases "f_type (formData c)")
     (simp_all add: handleSubmit_def listed_def newQuantity_def new_movement_def Let_def
        split: prod.splits)

lemma update_quantity_ok: "\<not> update_error e \<Longrightarrow> update_quantity e pid q d = (False, set_quantity pid q d)"
  by (simp add: update_quantity_def)

lemma update_quantity_err: "update_error e \<Longrightarrow> update_quantity e pid q d = (True, d)"
  by (simp add: update_quantity_def)

lemma ids_set_quantity: "map row_id (db_products (set_quantity pid q d)) = map row_id (db_products d)"
  by (simp add: set_quantity_def comp_def)

lemma movements_set_quantity: "db_movements (set_quantity pid q d) = db_movements d"
  by (simp add: set_quantity_def)

lemma find_set_quantity:
  "find (\<lambda>r. row_id r = k) (map (\<lambda>r. if row_id r = pid then r\<lparr>row_quantity := q\<rparr> else r) rs) =
   map_option (\<lambda>r. if row_id r = pid then r\<lparr>row_quantity := q\<rparr> else r) (find (\<lambda>r. row_id r = k) rs)"
  by (induction rs) auto

lemma quantity_of_set_quantity:
  "quantity_of (set_quantity pid q d) k =
     (if k = pid then map_option (\<lambda>_. q) (quantity_of d k) else quantity_of d k)"
  by (auto simp: quantity_of_def set_quantity_def find_set_quantity
      option.map_comp comp_def intro!: option.map_cong dest: find_Some_iff[THEN iffD1])

lemma quantity_of_movements_update [simp]:
  "quantity_of (d\<lparr>db_movements := ms\<rparr>) k = quantity_of d k"
  by (simp add: quantity_of_def)

lemma find_is_Some: "(\<exists>r. find P xs = Some r) \<longleftrightarrow> (\<exists>r \<in> set xs. P r)"
  by (induction xs) auto

lemma quantity_of_Some_iff: "(\<exists>q. quantity_of d pid = Some q) \<longleftrightarrow> pid \<in> row_id ` set (db_products d)"
  using find_is_Some[of "\<lambda>r. row_id r = pid" "db_products d"]
  by (auto simp: quantity_of_def)

lemma handleSubmit_update_failed:
  "user c = Some u \<Longrightarrow> profile c = Some pr \<Longrightarrow> listed c = Some sp \<Longrightarrow>
   \<not> (f_type (formData c) = Saida \<and> f_quantity (formData c) > p_quantity sp) \<Longrightarrow>
   update_error e \<Longrightarrow>
   handleSubmit e c d = ([toast_error msg_register_failed], c, d)"
  by (simp add: handleSubmit_writes update_quantity_err)

lemma handleSubmit_insert_failed:
  "user c = Some u \<Longrightarrow> profile c = Some pr \<Longrightarrow> listed c = Some sp \<Longrightarrow>
   \<not> (f_type (formData c) = Saida \<and> f_quantity (formData c) > p_quantity sp) \<Longrightarrow>
   \<not> update_error e \<Longrightarrow>
   insert_error e \<or> f_product_id (formData c) \<notin> row_id ` set (db_products d) \<Longrightarrow>
   handleSubmit e c d =
     ([toast_error msg_register_failed], c,
      set_quantity (f_product_id (formData c)) (newQuantity (formData c) sp) d)"
  using ids_set_quantity[of "f_product_id (formData c)" "newQuantity (formData c) sp" d, THEN arg_cong[where f=set]]
  by (auto simp: handleSubmit_writes update_quantity_ok insert_movement_def new_movement_def)

lemma handleSubmit_ok:
  "user c = Some u \<Longrightarrow> profile c = Some pr \<Longrightarrow> listed c = Some sp \<Longrightarrow>
   \<not> (f_type (formData c) = Saida \<and> f_quantity (formData c) > p_quantity sp) \<Longrightarrow>
   \<not> update_error e \<Longrightarrow> \<not> insert_error e \<Longrightarrow>
   f_product_id (formData c) \<in> row_id ` set (db_products d) \<Longrightarrow>
   d2 = (set_quantity (f_product_id (formData c)) (newQuantity (formData c) sp) d)
          \<lparr>db_movements := db_movements d @ [new_movement c u pr]\<rparr> \<Longrightarrow>
   handleSubmit e c d =
     (toast_success msg_registered # fst (fetchProducts e (resetForm (c\<lparr>dialogOpen := False\<rparr>)) d2),
      snd (fetchProducts e (resetForm (c\<lparr>dialogOpen := False\<rparr>)) d2), d2)"
  using ids_set_quantity[of "f_product_id (formData c)" "newQuantity (formData c) sp" d, THEN arg_cong[where f=set]]
  by (auto simp: handleSubmit_writes update_quantity_ok insert_movement_def new_movement_def
       movements_set_quantity split: prod.splits)

text \<open>Every run of \<open>handleSubmit\<close> takes exactly one of six branches.\<close>

lemma handleSubmit_cases [case_names unauth not_found insufficient update_failed insert_failed ok]:
  obtains
    (unauth) "user c = None \<or> profile c = None"
      "handleSubmit e c d = ([toast_error msg_unauthenticated], c, d)"
  | (not_found) u pr where "user c = Some u" "profile c = Some pr" "listed c = None"
      "handleSubmit e c d = ([toast_error msg_not_found], c, d)"
  | (insufficient) u pr sp where "user c = Some u" "profile c = Some pr" "listed c = Some sp"
      "f_type (formData c) = Saida" "f_quantity (formData c) > p_quantity sp"
      "handleSubmit e c d = ([toast_error msg_insufficient], c, d)"
  | (update_failed) u pr sp where "user c = Some u" "profile c = Some pr" "listed c = Some sp"
      "\<not> (f_type (formData c) = Saida \<and> f_quantity (formData c) > p_quantity sp)"
      "update_error e"
      "handleSubmit e c d = ([toast_error msg_register_failed], c, d)"
  | (insert_failed) u pr sp where "user c = Some u" "profile c = Some pr" "listed c = Some sp"
      "\<not> (f_type (formData c) = Saida \<and> f_quantity (formData c) > p_quantity sp)"
      "\<not> update_error e"
      "insert_error e \<or> f_product_id (formData c) \<notin> row_id ` set (db_products d)"
      "handleSubmit e c d = ([toast_error msg_register_failed], c,
         set_quantity (f_product_id (formData c)) (newQuantity (formData c) sp) d)"
  | (ok) u pr sp where "user c = Some u" "profile c = Some pr" "listed c = Some sp"
      "\<not> (f_type (formData c) = Saida \<and> f_quantity (formData c) > p_quantity sp)"
      "\<not> update_error e" "\<not> insert_error e"
      "f_product_id (formData c) \<in> row_id ` set (db_products d)"
      "handleSubmit e c d =
        (toast_success msg_registered #
           fst (fetchProducts e (resetForm (c\<lparr>dialogOpen := False\<rparr>))
             ((set_quantity (f_product_id (formData c)) (newQuantity (formData c) sp) d)
                \<lparr>db_movements := db_movements d @ [new_movement c u pr]\<rparr>)),
         snd (fetchProducts e (resetForm (c\<lparr>dialogOpen := False\<rparr>))
             ((set_quantity (f_product_id (formData c)) (newQuantity (formData c) sp) d)
                \<lparr>db_movements := db_movements d @ [new_movement c u pr]\<rparr>)),
         (set_quantity (f_product_id (formData c)) (newQuantity (formData c) sp) d)
                \<lparr>db_movements := db_movements d @ [new_movement c u pr]\<rparr>)"
proof (cases "user c = None \<or> profile c = None")
  case True
  then show ?thesis using unauth handleSubmit_unauth by blast
next
  case False
  then obtain u pr where a: "user c = Some u" "profile c = Some pr" by auto
  show ?thesis
  proof (cases "listed c")
    case None
    then show ?thesis using not_found a handleSubmit_not_found by blast
  next
    case (Some sp)
    show ?thesis
    proof (cases "f_type (formData c) = Saida \<and> f_quantity (formData c) > p_quantity sp")
      case True
      then show ?thesis using insufficient[OF a Some] handleSubmit_insufficient[OF a Some] by blast
    next
      case chk: False
      show ?thesis
      proof (cases "update_error e")
        case True
        then show ?thesis
          using update_failed[OF a Some chk] handleSubmit_update_failed[OF a Some chk] by blast
      next
        case upd: False
        show ?thesis
        proof (cases "insert_error e \<or> f_product_id (formData c) \<notin> row_id ` set (db_products d)")
          case True
          then show ?thesis
            using insert_failed[OF a Some chk upd] handleSubmit_insert_failed[OF a Some chk upd]
            by blast
        next
          case False
          then show ?thesis
            using ok[OF a Some chk upd] handleSubmit_ok[OF a Some chk upd, OF _ _ refl]
            by blast
        qed
      qed
    qed
  qed
qed

subsection \<open>A fresh product list shows the stored quantity\<close>

lemma find_map_comp: "find P (map g xs) = map_option g (find (\<lambda>x. P (g x)) xs)"
  by (induction xs) auto

lemma find_in_set: "find P xs = Some x \<Longrightarrow> x \<in> set xs \<and> P x"
  by (induction xs) (auto split: if_splits)

lemma find_unique_key:
  assumes "distinct (map f xs)" and "set ys = set xs"
  shows "find (\<lambda>x. f x = k) ys = find (\<lambda>x. f x = k) xs"
proof (cases "find (\<lambda>x. f x = k) xs")
  case None
  then have "\<not> (\<exists>x \<in> set ys. f x = k)"
    using find_is_Some[of "\<lambda>x. f x = k" xs] assms(2) by simp
  then have "find (\<lambda>x. f x = k) ys = None"
    using find_is_Some[of "\<lambda>x. f x = k" ys] by (cases "find (\<lambda>x. f x = k) ys") auto
  with None show ?thesis by simp
next
  case (Some x)
  then have x: "x \<in> set xs" "f x = k" using find_in_set by fastforce+
  then obtain y where y: "find (\<lambda>x. f x = k) ys = Some y"
    using find_is_Some[of "\<lambda>x. f x = k" ys] assms(2) by auto
  then have "y \<in> set xs" "f y = k" using find_in_set[OF y] assms(2) by auto
  with x assms(1) have "y = x" by (auto simp: distinct_map inj_on_def)
  with y Some show ?thesis by simp
qed

lemma listed_in_sync:
  assumes "in_sync c d" and "distinct (map row_id (db_products d))"
  shows "map_option p_quantity (listed c) = quantity_of d (f_product_id (formData c))"
proof -
  have "find (\<lambda>r. row_id r = f_product_id (formData c)) (sort_key row_name (db_products d))
        = find (\<lambda>r. row_id r = f_product_id (formData c)) (db_products d)"
    using assms(2) by (intro find_unique_key) simp_all
  then show ?thesis
    using assms(1)
    by (simp add: in_sync_def listed_def select_products_def find_map_comp quantity_of_def
        option.map_comp comp_def)
qed

text \<open>
  A successful submission from a page whose list is fresh changes the stored quantity
  of its product by the requested amount and adds one log row.
\<close>

lemma fresh_submit_step:
  assumes sync: "in_sync c d" and dist: "distinct (map row_id (db_products d))"
    and run: "handleSubmit e c d = (ts, c', d')" and ok: "succeeded ts"
  shows "distinct (map row_id (db_products d'))"
    and "quantity_of d' k =
          (if k = f_product_id (formData c)
           then map_option (\<lambda>b. if f_type (formData c) = Entrada then b + f_quantity (formData c)
                                 else b - f_quantity (formData c))
                  (quantity_of d k)
           else quantity_of d k)"
    and "length (db_movements d') = Suc (length (db_movements d))"
proof -
  have lq: "map_option p_quantity (listed c) = quantity_of d (f_product_id (formData c))"
    by (rule listed_in_sync[OF sync dist])
  have all: "distinct (map row_id (db_products d')) \<and>
    quantity_of d' k =
          (if k = f_product_id (formData c)
           then map_option (\<lambda>b. if f_type (formData c) = Entrada then b + f_quantity (formData c)
                                 else b - f_quantity (formData c))
                  (quantity_of d k)
           else quantity_of d k) \<and>
    length (db_movements d') = Suc (length (db_movements d))"
  proof (cases e c d rule: handleSubmit_cases)
    case (ok u pr sp)
    have b: "quantity_of d (f_product_id (formData c)) = Some (p_quantity sp)"
      using lq ok(3) by simp
    have d': "d' = (set_quantity (f_product_id (formData c)) (newQuantity (formData c) sp) d)
                \<lparr>db_movements := db_movements d @ [new_movement c u pr]\<rparr>"
      using ok(8) run by simp
    show ?thesis
      using b dist
      by (auto simp: d' ids_set_quantity movements_set_quantity
          quantity_of_set_quantity newQuantity_def)
  qed (use run ok in auto)
  from all show "distinct (map row_id (db_products d'))"
    and "quantity_of d' k =
          (if k = f_product_id (formData c)
           then map_option (\<lambda>b. if f_type (formData c) = Entrada then b + f_quantity (formData c)
                                 else b - f_quantity (formData c))
                  (quantity_of d k)
           else quantity_of d k)"
    and "length (db_movements d') = Suc (length (db_movements d))"
    by blast+
qed

subsection \<open>The history filter and the low stock list\<close>

lemma includes_sublist: "str_includes s t \<longleftrightarrow> sublist t s"
  by (induction s) (auto simp: sublist_Cons_right)

lemma includes_contains_ci: "str_includes (lc s) (lc t) \<longleftrightarrow> contains_ci lc s t"
  by (simp add: includes_sublist sublist_def contains_ci_def)

lemma filterMovements_filter:
  "filteredMovements (filterMovements lc h) =
     filter (matches lc (searchTerm h) (typeFilter h)) (movements h)"
  by (auto simp: filterMovements_def matches_def includes_contains_ci Let_def intro: filter_cong)

lemma insort_cmp_key: "insort_cmp (\<lambda>a b. f a - f b) x ys = insort_key f x ys"
  for f :: "'a \<Rightarrow> int"
  by (induction ys) auto

lemma sort_cmp_key: "sort_cmp (\<lambda>a b. f a - f b) xs = sort_key f xs"
  for f :: "'a \<Rightarrow> int"
  by (induction xs) (simp_all add: sort_cmp_def insort_cmp_key)

lemma lowStock_eq:
  "lowStock (Some ps) = take 5 (sort_key row_quantity (filter is_low ps))"
  by (simp add: lowStock_def sort_cmp_key is_low_def[abs_def])

subsection \<open>The examples\<close>

lemmas demo_defs = demo_client_def demo_form_def demo_db_def env_ok_def env_insert_fails_def
  env_update_fails_def env_fetch_fails_def

lemmas eval_defs = handleSubmit_def update_quantity_def insert_movement_def set_quantity_def
  fetchProducts_def resetForm_def select_products_def quantity_of_def succeeded_def demo_defs
  inbound_total_def outbound_total_def listed_def in_sync_def
  next_page_def demo_db_deleted_def

lemma demo_user: "user (demo_client d f) = Some \<lparr>user_id = ''u1''\<rparr>"
  "profile (demo_client d f) = Some \<lparr>full_name = ''Ana''\<rparr>"
  "formData (demo_client d f) = f" "products (demo_client d f) = select_products d"
  by (simp_all add: demo_client_def)

lemma demo_form_sel:
  "f_product_id (demo_form t n) = ''p1''" "f_type (demo_form t n) = t"
  "f_quantity (demo_form t n) = n" "f_notes (demo_form t n) = []"
  by (simp_all add: demo_form_def)

lemma demo_select: "select_products (demo_db q) =
   [\<lparr>p_id = ''p1'', p_name = ''Notebook'', p_quantity = q\<rparr>,
    \<lparr>p_id = ''p2'', p_name = ''Smart TV'', p_quantity = 7\<rparr>]"
  by (simp add: select_products_def demo_db_def)

lemma demo_listed: "listed (demo_client (demo_db q) (demo_form t n)) =
    Some \<lparr>p_id = ''p1'', p_name = ''Notebook'', p_quantity = q\<rparr>"
  by (simp add: listed_def demo_client_def demo_select demo_form_def)

lemma demo_quantity: "quantity_of (demo_db q) ''p1'' = Some q"
  by (simp add: demo_db_def quantity_of_def)

lemma demo_set_quantity: "set_quantity ''p1'' n (demo_db q) = demo_db n"
  by (simp add: demo_db_def set_quantity_def)

lemma demo_in_sync: "in_sync (demo_client (demo_db q) f) (demo_db q)"
  by (simp add: in_sync_def demo_user)

section \<open>Claims about recording a movement\<close>

text \<open>
  C1, as amended. The balance update and the movement insert are two requests, sent in
  that order, with no transaction and no rollback. A request that the store answers
  with an error is taken to have changed nothing in the store. For a submission that
  passes the checks (signed in, product listed, stock sufficient): if the update is
  refused, the error toast is shown and the store is unchanged; if the update is
  accepted and the insert is refused (by an error of the store, or because the store
  has no product row with that id), the error toast is shown, the store is the old one
  with the new quantity written, so a product row with that id keeps the new quantity,
  and the movement log is unchanged. No submission that fails changes the movement log.
\<close>

theorem writes_not_atomic:
  "(user c = Some u \<and> profile c = Some pr \<and>
      find (\<lambda>p. p_id p = f_product_id (formData c)) (products c) = Some sp \<and>
      \<not> (f_type (formData c) = Saida \<and> p_quantity sp < f_quantity (formData c))
      \<longrightarrow>
      (update_error e \<longrightarrow>
         handleSubmit e c d = ([toast_error msg_register_failed], c, d))
      \<and> (\<not> update_error e \<and>
           (insert_error e \<or> f_product_id (formData c) \<notin> row_id ` set (db_products d))
         \<longrightarrow>
         handleSubmit e c d =
           ([toast_error msg_register_failed], c,
            set_quantity (f_product_id (formData c)) (newQuantity (formData c) sp) d)
         \<and> db_movements (snd (snd (handleSubmit e c d))) = db_movements d
         \<and> (\<forall>b. quantity_of d (f_product_id (formData c)) = Some b \<longrightarrow>
               quantity_of (snd (snd (handleSubmit e c d))) (f_product_id (formData c)) =
                 Some (if f_type (formData c) = Entrada
                       then p_quantity sp + f_quantity (formData c)
                       else p_quantity sp - f_quantity (formData c)))))
   \<and> (\<not> succeeded (fst (handleSubmit e c d)) \<longrightarrow>
        db_movements (snd (snd (handleSubmit e c d))) = db_movements d)"
proof (intro conjI impI allI)
  assume a: "user c = Some u \<and> profile c = Some pr \<and>
      find (\<lambda>p. p_id p = f_product_id (formData c)) (products c) = Some sp \<and>
      \<not> (f_type (formData c) = Saida \<and> p_quantity sp < f_quantity (formData c))"
  then have l: "user c = Some u" "profile c = Some pr" "listed c = Some sp"
    and chk: "\<not> (f_type (formData c) = Saida \<and> f_quantity (formData c) > p_quantity sp)"
    by (simp_all add: listed_def)
  {
    assume "update_error e"
    then show "handleSubmit e c d = ([toast_error msg_register_failed], c, d)"
      by (rule handleSubmit_update_failed[OF l chk])
  }
  {
    assume b: "\<not> update_error e \<and>
           (insert_error e \<or> f_product_id (formData c) \<notin> row_id ` set (db_products d))"
    then have r: "handleSubmit e c d =
           ([toast_error msg_register_failed], c,
            set_quantity (f_product_id (formData c)) (newQuantity (formData c) sp) d)"
      using handleSubmit_insert_failed[OF l chk] by blast
    show "handleSubmit e c d =
           ([toast_error msg_register_failed], c,
            set_quantity (f_product_id (formData c)) (newQuantity (formData c) sp) d)"
      by (rule r)
    show "db_movements (snd (snd (handleSubmit e c d))) = db_movements d"
      by (simp add: r movements_set_quantity)
    fix b'
    assume "quantity_of d (f_product_id (formData c)) = Some b'"
    then show "quantity_of (snd (snd (handleSubmit e c d))) (f_product_id (formData c)) =
                 Some (if f_type (formData c) = Entrada
                       then p_quantity sp + f_quantity (formData c)
                       else p_quantity sp - f_quantity (formData c))"
      by (simp add: r quantity_of_set_quantity newQuantity_def)
  }
next
  assume "\<not> succeeded (fst (handleSubmit e c d))"
  then show "db_movements (snd (snd (handleSubmit e c d))) = db_movements d"
    by (cases e c d rule: handleSubmit_cases) (auto simp: movements_set_quantity)
qed

theorem writes_not_atomic_witness:
  "handleSubmit env_update_fails (demo_client (demo_db 10) (demo_form Entrada 5)) (demo_db 10) =
     ([toast_error msg_register_failed], demo_client (demo_db 10) (demo_form Entrada 5), demo_db 10)
   \<and> handleSubmit env_insert_fails (demo_client (demo_db 10) (demo_form Entrada 5)) (demo_db 10) =
     ([toast_error msg_register_failed], demo_client (demo_db 10) (demo_form Entrada 5), demo_db 15)
   \<and> quantity_of (demo_db 10) ''p1'' = Some 10
   \<and> quantity_of (snd (snd (handleSubmit env_insert_fails
        (demo_client (demo_db 10) (demo_form Entrada 5)) (demo_db 10)))) ''p1'' = Some 15
   \<and> db_movements (snd (snd (handleSubmit env_insert_fails
        (demo_client (demo_db 10) (demo_form Entrada 5)) (demo_db 10)))) = db_movements (demo_db 10)"
proof -
  let ?c = "demo_client (demo_db 10) (demo_form Entrada 5)"
  let ?sp = "\<lparr>p_id = ''p1'', p_name = ''Notebook'', p_quantity = 10\<rparr>"
  have f: "formData ?c = demo_form Entrada 5" by (simp add: demo_user)
  have pre: "user ?c = Some \<lparr>user_id = ''u1''\<rparr> \<and> profile ?c = Some \<lparr>full_name = ''Ana''\<rparr> \<and>
      find (\<lambda>p. p_id p = f_product_id (formData ?c)) (products ?c) = Some ?sp \<and>
      \<not> (f_type (formData ?c) = Saida \<and> p_quantity ?sp < f_quantity (formData ?c))"
    using demo_listed[of 10 Entrada 5] by (simp add: listed_def f demo_form_sel demo_user)
  have u: "update_error env_update_fails" by (simp add: env_update_fails_def)
  have i: "\<not> update_error env_insert_fails \<and>
           (insert_error env_insert_fails \<or>
            f_product_id (formData ?c) \<notin> row_id ` set (db_products (demo_db 10)))"
    by (simp add: env_insert_fails_def)
  have q: "quantity_of (demo_db 10) (f_product_id (formData ?c)) = Some 10"
    by (simp add: f demo_form_sel demo_quantity)
  from writes_not_atomic[of ?c "\<lparr>user_id = ''u1''\<rparr>" "\<lparr>full_name = ''Ana''\<rparr>" ?sp
      env_update_fails "demo_db 10"] pre u
  have 1: "handleSubmit env_update_fails ?c (demo_db 10) =
             ([toast_error msg_register_failed], ?c, demo_db 10)"
    by blast
  from writes_not_atomic[of ?c "\<lparr>user_id = ''u1''\<rparr>" "\<lparr>full_name = ''Ana''\<rparr>" ?sp
      env_insert_fails "demo_db 10"] pre i q
  have 2: "handleSubmit env_insert_fails ?c (demo_db 10) =
           ([toast_error msg_register_failed], ?c,
            set_quantity (f_product_id (formData ?c)) (newQuantity (formData ?c) ?sp) (demo_db 10))"
    and 3: "db_movements (snd (snd (handleSubmit env_insert_fails ?c (demo_db 10)))) =
            db_movements (demo_db 10)"
    and 4: "quantity_of (snd (snd (handleSubmit env_insert_fails ?c (demo_db 10))))
              (f_product_id (formData ?c)) =
            Some (if f_type (formData ?c) = Entrada
                       then p_quantity ?sp + f_quantity (formData ?c)
                       else p_quantity ?sp - f_quantity (formData ?c))"
    by blast+
  have 5: "set_quantity (f_product_id (formData ?c)) (newQuantity (formData ?c) ?sp) (demo_db 10)
           = demo_db 15"
    by (simp add: f demo_form_sel newQuantity_def demo_set_quantity)
  have 6: "quantity_of (snd (snd (handleSubmit env_insert_fails ?c (demo_db 10)))) ''p1'' = Some 15"
    using 4 by (simp add: f demo_form_sel)
  from 1 2 3 5 6 show ?thesis by (simp add: demo_quantity)
qed

text \<open>
  C1 as stated fails: with stock 10, an inbound movement of 5 whose insert the store
  refuses shows the error toast, leaves the log empty and the stored quantity at 15.
\<close>

theorem insert_failure_keeps_update_counterexample:
  "fst (handleSubmit env_insert_fails (demo_client (demo_db 10) (demo_form Entrada 5)) (demo_db 10))
     = [toast_error msg_register_failed]
   \<and> quantity_of (demo_db 10) ''p1'' = Some 10
   \<and> quantity_of (snd (snd (handleSubmit env_insert_fails
         (demo_client (demo_db 10) (demo_form Entrada 5)) (demo_db 10)))) ''p1'' = Some 15
   \<and> db_movements (snd (snd (handleSubmit env_insert_fails
         (demo_client (demo_db 10) (demo_form Entrada 5)) (demo_db 10)))) = []
   \<and> snd (snd (handleSubmit env_insert_fails
         (demo_client (demo_db 10) (demo_form Entrada 5)) (demo_db 10))) \<noteq> demo_db 10"
  by (simp add: eval_defs)

text \<open>
  C2, as amended. An outbound submission from a signed-in page whose quantity exceeds
  the quantity the page lists for the product (the one \<open>handleSubmit\<close> compares with)
  shows the insufficient stock toast and changes neither the page nor the store; the
  same holds for a quantity that exceeds the stored quantity when the page's list is
  fresh and the product ids of the store are distinct. After a successful submission
  the stored quantity of the product is not negative: always for an outbound movement,
  and for an inbound one when the listed quantity and the requested quantity are not
  negative.
\<close>

theorem outbound_over_stock_rejected:
  "(user c \<noteq> None \<and> profile c \<noteq> None \<and>
      find (\<lambda>p. p_id p = f_product_id (formData c)) (products c) = Some sp \<and>
      f_type (formData c) = Saida \<and> p_quantity sp < f_quantity (formData c)
      \<longrightarrow> handleSubmit e c d = ([toast_error msg_insufficient], c, d))
   \<and> (user c \<noteq> None \<and> profile c \<noteq> None \<and> in_sync c d \<and>
      distinct (map row_id (db_products d)) \<and>
      quantity_of d (f_product_id (formData c)) = Some s \<and>
      f_type (formData c) = Saida \<and> s < f_quantity (formData c)
      \<longrightarrow> handleSubmit e c d = ([toast_error msg_insufficient], c, d))
   \<and> (succeeded (fst (handleSubmit e c d)) \<and>
      (f_type (formData c) = Entrada \<longrightarrow>
         0 \<le> f_quantity (formData c) \<and> (\<forall>sp. listed c = Some sp \<longrightarrow> 0 \<le> p_quantity sp))
      \<longrightarrow> (\<exists>q. quantity_of (snd (snd (handleSubmit e c d))) (f_product_id (formData c)) = Some q
               \<and> 0 \<le> q))"
proof (intro conjI impI)
  assume a: "user c \<noteq> None \<and> profile c \<noteq> None \<and>
      find (\<lambda>p. p_id p = f_product_id (formData c)) (products c) = Some sp \<and>
      f_type (formData c) = Saida \<and> p_quantity sp < f_quantity (formData c)"
  then show "handleSubmit e c d = ([toast_error msg_insufficient], c, d)"
    using handleSubmit_insufficient[of c _ _ sp e d] by (auto simp: listed_def)
next
  assume a: "user c \<noteq> None \<and> profile c \<noteq> None \<and> in_sync c d \<and>
      distinct (map row_id (db_products d)) \<and>
      quantity_of d (f_product_id (formData c)) = Some s \<and>
      f_type (formData c) = Saida \<and> s < f_quantity (formData c)"
  then have "map_option p_quantity (listed c) = Some s"
    using listed_in_sync[of c d] by simp
  then obtain sp where "listed c = Some sp" "p_quantity sp = s" by auto
  with a show "handleSubmit e c d = ([toast_error msg_insufficient], c, d)"
    using handleSubmit_insufficient[of c _ _ sp e d] by auto
next
  assume a: "succeeded (fst (handleSubmit e c d)) \<and>
      (f_type (formData c) = Entrada \<longrightarrow>
         0 \<le> f_quantity (formData c) \<and> (\<forall>sp. listed c = Some sp \<longrightarrow> 0 \<le> p_quantity sp))"
  show "\<exists>q. quantity_of (snd (snd (handleSubmit e c d))) (f_product_id (formData c)) = Some q \<and> 0 \<le> q"
  proof (cases e c d rule: handleSubmit_cases)
    case (ok u pr sp)
    obtain q where q: "quantity_of d (f_product_id (formData c)) = Some q"
      using ok(7) quantity_of_Some_iff by blast
    have "0 \<le> newQuantity (formData c) sp"
      using a ok(3,4) by (cases "f_type (formData c)") (auto simp: newQuantity_def)
    then show ?thesis using q ok(8) by (simp add: quantity_of_set_quantity)
  qed (use a in auto)
qed

theorem outbound_over_stock_rejected_witness:
  "quantity_of (demo_db 3) ''p1'' = Some 3
   \<and> handleSubmit env_ok (demo_client (demo_db 3) (demo_form Saida 5)) (demo_db 3) =
     ([toast_error msg_insufficient], demo_client (demo_db 3) (demo_form Saida 5), demo_db 3)
   \<and> succeeded (fst (handleSubmit env_ok (demo_client (demo_db 3) (demo_form Saida 2)) (demo_db 3)))
   \<and> (\<exists>q. quantity_of (snd (snd (handleSubmit env_ok
               (demo_client (demo_db 3) (demo_form Saida 2)) (demo_db 3)))) ''p1'' = Some q
          \<and> 0 \<le> q)
   \<and> succeeded (fst (handleSubmit env_ok (demo_client (demo_db 3) (demo_form Entrada 4)) (demo_db 3)))
   \<and> (\<exists>q. quantity_of (snd (snd (handleSubmit env_ok
               (demo_client (demo_db 3) (demo_form Entrada 4)) (demo_db 3)))) ''p1'' = Some q
          \<and> 0 \<le> q)"
proof -
  let ?c = "demo_client (demo_db 3) (demo_form Saida 5)"
  let ?c2 = "demo_client (demo_db 3) (demo_form Saida 2)"
  let ?c3 = "demo_client (demo_db 3) (demo_form Entrada 4)"
  let ?sp = "\<lparr>p_id = ''p1'', p_name = ''Notebook'', p_quantity = 3\<rparr>"
  have f: "formData ?c = demo_form Saida 5" "formData ?c2 = demo_form Saida 2"
    "formData ?c3 = demo_form Entrada 4"
    by (simp_all add: demo_user)
  have listed_part: "user ?c \<noteq> None \<and> profile ?c \<noteq> None \<and>
      find (\<lambda>p. p_id p = f_product_id (formData ?c)) (products ?c) = Some ?sp \<and>
      f_type (formData ?c) = Saida \<and> p_quantity ?sp < f_quantity (formData ?c)"
    using demo_listed[of 3 Saida 5] by (simp add: listed_def f demo_form_sel demo_user)
  have stored_part: "user ?c \<noteq> None \<and> profile ?c \<noteq> None \<and> in_sync ?c (demo_db 3) \<and>
      distinct (map row_id (db_products (demo_db 3))) \<and>
      quantity_of (demo_db 3) (f_product_id (formData ?c)) = Some 3 \<and>
      f_type (formData ?c) = Saida \<and> 3 < f_quantity (formData ?c)"
    by (simp add: f demo_form_sel demo_user demo_in_sync demo_quantity) (simp add: demo_db_def)
  have s2: "succeeded (fst (handleSubmit env_ok ?c2 (demo_db 3)))" by (simp add: eval_defs)
  have s3: "succeeded (fst (handleSubmit env_ok ?c3 (demo_db 3)))" by (simp add: eval_defs)
  have inbound: "f_type (formData ?c3) = Entrada \<longrightarrow>
      0 \<le> f_quantity (formData ?c3) \<and> (\<forall>sp. listed ?c3 = Some sp \<longrightarrow> 0 \<le> p_quantity sp)"
    by (simp add: f demo_form_sel demo_listed)
  from outbound_over_stock_rejected[of ?c ?sp env_ok "demo_db 3" 3] listed_part stored_part
  have 1: "handleSubmit env_ok ?c (demo_db 3) = ([toast_error msg_insufficient], ?c, demo_db 3)"
    by blast
  from outbound_over_stock_rejected[of ?c2 ?sp env_ok "demo_db 3" 3] s2
  have 2: "\<exists>q. quantity_of (snd (snd (handleSubmit env_ok ?c2 (demo_db 3)))) ''p1'' = Some q \<and> 0 \<le> q"
    by (simp add: f demo_form_sel)
  from outbound_over_stock_rejected[of ?c3 ?sp env_ok "demo_db 3" 3] s3 inbound
  have 3: "\<exists>q. quantity_of (snd (snd (handleSubmit env_ok ?c3 (demo_db 3)))) ''p1'' = Some q \<and> 0 \<le> q"
    by (simp add: f demo_form_sel)
  from 1 2 3 s2 s3 show ?thesis by (simp add: demo_quantity)
qed

text \<open>
  C2 as stated fails: a page that still lists quantity 10 for a product whose stored
  quantity is 3 submits an outbound movement of 5, more than the stored quantity; it
  succeeds, writes quantity 5 and logs a row. And a successful inbound movement of -20
  on a stock of 10 leaves the stored quantity at -10.
\<close>

theorem stale_list_outbound_counterexample:
  "quantity_of (demo_db 3) ''p1'' = Some 3
   \<and> f_type (formData (demo_client (demo_db 10) (demo_form Saida 5))) = Saida
   \<and> f_quantity (formData (demo_client (demo_db 10) (demo_form Saida 5))) = 5
   \<and> succeeded (fst (handleSubmit env_ok (demo_client (demo_db 10) (demo_form Saida 5)) (demo_db 3)))
   \<and> quantity_of (snd (snd (handleSubmit env_ok
        (demo_client (demo_db 10) (demo_form Saida 5)) (demo_db 3)))) ''p1'' = Some 5
   \<and> length (db_movements (snd (snd (handleSubmit env_ok
        (demo_client (demo_db 10) (demo_form Saida 5)) (demo_db 3))))) = 1
   \<and> succeeded (fst (handleSubmit env_ok
        (demo_client (demo_db 10) (demo_form Entrada (- 20))) (demo_db 10)))
   \<and> quantity_of (snd (snd (handleSubmit env_ok
        (demo_client (demo_db 10) (demo_form Entrada (- 20))) (demo_db 10)))) ''p1'' = Some (- 10)"
  by (simp add: eval_defs)

text \<open>
  C3, as amended. Outbound movements of quantity 1, submitted by signed-in pages, whose
  writes reach the store one submission after the other and are all accepted, each
  submission reading a product list that equals the store's products when its own
  writes are applied (no write of another submission between the fetch of that list
  and these writes), against a product whose stored quantity is their number, in a
  store with distinct product ids: all succeed, the final quantity is 0 and the log
  grows by one row for each.
\<close>

theorem sequential_unit_withdrawals:
  assumes "distinct (map row_id (db_products d))"
    and "quantity_of d pid = Some (int (length rs))"
    and "\<forall>(e, c) \<in> set rs. user c \<noteq> None \<and> profile c \<noteq> None \<and>
           \<not> update_error e \<and> \<not> insert_error e \<and>
           f_product_id (formData c) = pid \<and> f_type (formData c) = Saida \<and>
           f_quantity (formData c) = 1"
    and "fresh_at_each rs d"
    and "submit_each rs d = (tss, d')"
  shows "length tss = length rs \<and> list_all succeeded tss \<and> quantity_of d' pid = Some 0 \<and>
         length (db_movements d') = length (db_movements d) + length rs"
  using assms
proof (induction rs arbitrary: d tss)
  case Nil
  then show ?case by simp
next
  case (Cons r rs)
  obtain e c where r: "r = (e, c)" by (cases r)
  have f: "user c \<noteq> None" "profile c \<noteq> None" "\<not> update_error e" "\<not> insert_error e"
    "f_product_id (formData c) = pid" "f_type (formData c) = Saida" "f_quantity (formData c) = 1"
    using Cons.prems(3) r by auto
  have rs: "\<forall>(e, c) \<in> set rs. user c \<noteq> None \<and> profile c \<noteq> None \<and>
           \<not> update_error e \<and> \<not> insert_error e \<and>
           f_product_id (formData c) = pid \<and> f_type (formData c) = Saida \<and>
           f_quantity (formData c) = 1"
    using Cons.prems(3) by simp
  obtain u pr where a: "user c = Some u" "profile c = Some pr"
    using f(1,2) by auto
  obtain ts c1 d1 where h: "handleSubmit e c d = (ts, c1, d1)"
    by (cases "handleSubmit e c d")
  have sync: "in_sync c d" and fresh: "fresh_at_each rs d1"
    using Cons.prems(4) r h by simp_all
  have "map_option p_quantity (listed c) = Some (int (length (r # rs)))"
    using listed_in_sync[OF sync Cons.prems(1)] Cons.prems(2) f(5) by simp
  then obtain sp where sp: "listed c = Some sp" "p_quantity sp = int (length (r # rs))"
    by auto
  have chk: "\<not> (f_type (formData c) = Saida \<and> f_quantity (formData c) > p_quantity sp)"
    using sp(2) f(7) by simp
  have fk: "f_product_id (formData c) \<in> row_id ` set (db_products d)"
    using quantity_of_Some_iff[of d pid] Cons.prems(2) f(5) by simp
  have ok: "succeeded ts"
    using handleSubmit_ok[OF a sp(1) chk f(3,4) fk refl] h by simp
  obtain tss1 where rest: "submit_each rs d1 = (tss1, d')" and tss: "tss = ts # tss1"
    using Cons.prems(5) r h by (auto split: prod.splits)
  note st = fresh_submit_step[OF sync Cons.prems(1) h ok]
  have q1: "quantity_of d1 pid = Some (int (length rs))"
    using st(2)[of pid] Cons.prems(2) f(5,6,7) by simp
  have "length tss1 = length rs \<and> list_all succeeded tss1 \<and> quantity_of d' pid = Some 0 \<and>
         length (db_movements d') = length (db_movements d1) + length rs"
    by (rule Cons.IH[OF st(1) q1 rs fresh rest])
  then show ?case using ok tss st(3) by simp
qed

theorem sequential_unit_withdrawals_witness:
  "quantity_of (demo_db 3) ''p1'' = Some 3
   \<and> fresh_at_each
       [(env_ok, demo_client (demo_db 3) (demo_form Saida 1)),
        (env_ok, next_page env_ok (demo_client (demo_db 3) (demo_form Saida 1)) (demo_db 3)
                   (demo_form Saida 1)),
        (env_ok, demo_client (demo_db 1) (demo_form Saida 1))] (demo_db 3)
   \<and> list_all succeeded
       (fst (submit_each
         [(env_ok, demo_client (demo_db 3) (demo_form Saida 1)),
          (env_ok, next_page env_ok (demo_client (demo_db 3) (demo_form Saida 1)) (demo_db 3)
                     (demo_form Saida 1)),
          (env_ok, demo_client (demo_db 1) (demo_form Saida 1))] (demo_db 3)))
   \<and> quantity_of
       (snd (submit_each
         [(env_ok, demo_client (demo_db 3) (demo_form Saida 1)),
          (env_ok, next_page env_ok (demo_client (demo_db 3) (demo_form Saida 1)) (demo_db 3)
                     (demo_form Saida 1)),
          (env_ok, demo_client (demo_db 1) (demo_form Saida 1))] (demo_db 3))) ''p1'' = Some 0
   \<and> length (db_movements
       (snd (submit_each
         [(env_ok, demo_client (demo_db 3) (demo_form Saida 1)),
          (env_ok, next_page env_ok (demo_client (demo_db 3) (demo_form Saida 1)) (demo_db 3)
                     (demo_form Saida 1)),
          (env_ok, demo_client (demo_db 1) (demo_form Saida 1))] (demo_db 3)))) = 3"
proof -
  let ?c0 = "demo_client (demo_db 3) (demo_form Saida 1)"
  let ?rs = "[(env_ok, ?c0), (env_ok, next_page env_ok ?c0 (demo_db 3) (demo_form Saida 1)),
              (env_ok, demo_client (demo_db 1) (demo_form Saida 1))]"
  let ?r = "submit_each ?rs (demo_db 3)"
  have run: "submit_each ?rs (demo_db 3) = (fst ?r, snd ?r)" by simp
  have dist: "distinct (map row_id (db_products (demo_db 3)))" by (simp add: demo_db_def)
  have q: "quantity_of (demo_db 3) ''p1'' = Some (int (length ?rs))" by (simp add: demo_quantity)
  have fresh: "fresh_at_each ?rs (demo_db 3)" by (simp add: eval_defs)
  have rs: "\<forall>(e, c) \<in> set ?rs. user c \<noteq> None \<and> profile c \<noteq> None \<and>
           \<not> update_error e \<and> \<not> insert_error e \<and>
           f_product_id (formData c) = ''p1'' \<and> f_type (formData c) = Saida \<and>
           f_quantity (formData c) = 1"
    by (simp add: eval_defs)
  have "length (fst ?r) = length ?rs \<and> list_all succeeded (fst ?r) \<and>
        quantity_of (snd ?r) ''p1'' = Some 0 \<and>
        length (db_movements (snd ?r)) = length (db_movements (demo_db 3)) + length ?rs"
    by (rule sequential_unit_withdrawals[OF dist q rs fresh run])
  then show ?thesis using fresh by (simp add: demo_quantity) (simp add: demo_db_def)
qed

text \<open>
  C3 as stated fails: two submissions of an outbound movement of 1 that both read a
  list showing quantity 2 (two pages opened before either write, or one page submitting
  twice before its refresh) both succeed and two rows are logged, but both compute
  2 - 1 from the list they read and the stored quantity ends at 1.
\<close>

theorem lost_update_counterexample:
  "in_sync (demo_client (demo_db 2) (demo_form Saida 1)) (demo_db 2)
   \<and> quantity_of (demo_db 2) ''p1'' = Some 2
   \<and> list_all succeeded
       (fst (submit_each
          [(env_ok, demo_client (demo_db 2) (demo_form Saida 1)),
           (env_ok, demo_client (demo_db 2) (demo_form Saida 1))] (demo_db 2)))
   \<and> length (db_movements (snd (submit_each
          [(env_ok, demo_client (demo_db 2) (demo_form Saida 1)),
           (env_ok, demo_client (demo_db 2) (demo_form Saida 1))] (demo_db 2)))) = 2
   \<and> quantity_of (snd (submit_each
          [(env_ok, demo_client (demo_db 2) (demo_form Saida 1)),
           (env_ok, demo_client (demo_db 2) (demo_form Saida 1))] (demo_db 2))) ''p1'' = Some 1"
  by (simp add: eval_defs)

text \<open>
  C4, as amended. For a run of submissions whose writes reach the store one submission
  after the other, all successful, each reading a product list that equals the store's
  products when its own writes are applied (no write of another submission between the
  fetch of that list and these writes), in a store with distinct product ids: the
  final stored quantity of a product is its initial quantity plus the inbound
  quantities minus the outbound quantities submitted for it.
\<close>

theorem balance_is_initial_plus_movements:
  assumes "distinct (map row_id (db_products d))"
    and "quantity_of d pid = Some B0"
    and "fresh_at_each rs d"
    and "submit_each rs d = (tss, d')"
    and "list_all succeeded tss"
  shows "quantity_of d' pid =
           Some (B0 + inbound_total pid (map (\<lambda>(e, c). formData c) rs)
                    - outbound_total pid (map (\<lambda>(e, c). formData c) rs))"
  using assms
proof (induction rs arbitrary: d B0 tss)
  case Nil
  then show ?case by (simp add: inbound_total_def outbound_total_def)
next
  case (Cons r rs)
  obtain e c where r: "r = (e, c)" by (cases r)
  obtain ts c1 d1 where h: "handleSubmit e c d = (ts, c1, d1)"
    by (cases "handleSubmit e c d")
  obtain tss1 where rest: "submit_each rs d1 = (tss1, d')" and tss: "tss = ts # tss1"
    using Cons.prems(4) r h by (auto split: prod.splits)
  have ok: "succeeded ts" "list_all succeeded tss1" using Cons.prems(5) tss by simp_all
  have sync: "in_sync c d" and fresh: "fresh_at_each rs d1"
    using Cons.prems(3) r h by simp_all
  note st = fresh_submit_step[OF sync Cons.prems(1) h ok(1)]
  let ?f = "formData c"
  let ?B1 = "if pid = f_product_id ?f
             then (if f_type ?f = Entrada then B0 + f_quantity ?f else B0 - f_quantity ?f) else B0"
  have q1: "quantity_of d1 pid = Some ?B1"
    using st(2)[of pid] Cons.prems(2) by auto
  have "quantity_of d' pid =
          Some (?B1 + inbound_total pid (map (\<lambda>(e, c). formData c) rs)
                    - outbound_total pid (map (\<lambda>(e, c). formData c) rs))"
    by (rule Cons.IH[OF st(1) q1 fresh rest ok(2)])
  then show ?case
    by (cases "f_type ?f") (auto simp: r inbound_total_def outbound_total_def)
qed

theorem balance_is_initial_plus_movements_witness:
  "quantity_of (demo_db 10) ''p1'' = Some 10
   \<and> fresh_at_each
       [(env_ok, demo_client (demo_db 10) (demo_form Entrada 5)),
        (env_ok, next_page env_ok (demo_client (demo_db 10) (demo_form Entrada 5)) (demo_db 10)
                   (demo_form Saida 8))] (demo_db 10)
   \<and> list_all succeeded
       (fst (submit_each
         [(env_ok, demo_client (demo_db 10) (demo_form Entrada 5)),
          (env_ok, next_page env_ok (demo_client (demo_db 10) (demo_form Entrada 5)) (demo_db 10)
                     (demo_form Saida 8))] (demo_db 10)))
   \<and> quantity_of
       (snd (submit_each
         [(env_ok, demo_client (demo_db 10) (demo_form Entrada 5)),
          (env_ok, next_page env_ok (demo_client (demo_db 10) (demo_form Entrada 5)) (demo_db 10)
                     (demo_form Saida 8))] (demo_db 10))) ''p1'' = Some 7"
proof -
  let ?c0 = "demo_client (demo_db 10) (demo_form Entrada 5)"
  let ?rs = "[(env_ok, ?c0), (env_ok, next_page env_ok ?c0 (demo_db 10) (demo_form Saida 8))]"
  let ?r = "submit_each ?rs (demo_db 10)"
  have run: "submit_each ?rs (demo_db 10) = (fst ?r, snd ?r)" by simp
  have dist: "distinct (map row_id (db_products (demo_db 10)))" by (simp add: demo_db_def)
  have fresh: "fresh_at_each ?rs (demo_db 10)" by (simp add: eval_defs)
  have ok: "list_all succeeded (fst ?r)" by (simp add: eval_defs)
  have "quantity_of (snd ?r) ''p1'' =
          Some (10 + inbound_total ''p1'' (map (\<lambda>(e, c). formData c) ?rs)
                   - outbound_total ''p1'' (map (\<lambda>(e, c). formData c) ?rs))"
    by (rule balance_is_initial_plus_movements[OF dist demo_quantity fresh run ok])
  then show ?thesis using ok fresh
    by (simp add: demo_quantity) (simp add: eval_defs)
qed

text \<open>
  C4 as stated fails, on one page: the refresh after the first of two successful
  inbound movements of 5 fails, the second is computed from the stale entry, and a
  stock of 10 ends at 15; the same happens when the second submission is sent before
  the refresh of the first has finished (a double click), both reading quantity 10.
\<close>

theorem stale_list_loses_inbound_counterexample:
  "quantity_of (demo_db 10) ''p1'' = Some 10
   \<and> list_all succeeded
       (fst (submit_each
         [(env_fetch_fails, demo_client (demo_db 10) (demo_form Entrada 5)),
          (env_ok, next_page env_fetch_fails (demo_client (demo_db 10) (demo_form Entrada 5))
                     (demo_db 10) (demo_form Entrada 5))] (demo_db 10)))
   \<and> quantity_of
       (snd (submit_each
         [(env_fetch_fails, demo_client (demo_db 10) (demo_form Entrada 5)),
          (env_ok, next_page env_fetch_fails (demo_client (demo_db 10) (demo_form Entrada 5))
                     (demo_db 10) (demo_form Entrada 5))] (demo_db 10))) ''p1'' = Some 15
   \<and> list_all succeeded
       (fst (submit_each
         [(env_ok, demo_client (demo_db 10) (demo_form Entrada 5)),
          (env_ok, demo_client (demo_db 10) (demo_form Entrada 5))] (demo_db 10)))
   \<and> quantity_of
       (snd (submit_each
         [(env_ok, demo_client (demo_db 10) (demo_form Entrada 5)),
          (env_ok, demo_client (demo_db 10) (demo_form Entrada 5))] (demo_db 10))) ''p1'' = Some 15
   \<and> inbound_total ''p1'' [demo_form Entrada 5, demo_form Entrada 5] = 10
   \<and> outbound_total ''p1'' [demo_form Entrada 5, demo_form Entrada 5] = 0"
  by (simp add: eval_defs)

text \<open>
  C5, as amended. A successful submission sets the quantity of every product row with
  the submitted id to the quantity the page lists for the product plus the requested
  quantity (inbound) or minus it (outbound), and appends exactly one movement row with
  the submitted product id, type and quantity, the id of the signed-in user, the name
  of the profile and the note (none when the note is empty). The listed quantity is
  the stored one, the current balance, when the page's list is fresh and the product
  ids of the store are distinct.
\<close>

theorem recordMovement_effect:
  assumes "handleSubmit e c d = (ts, c', d')" and "succeeded ts"
  shows "\<exists>u pr sp. user c = Some u \<and> profile c = Some pr \<and>
           find (\<lambda>p. p_id p = f_product_id (formData c)) (products c) = Some sp \<and>
           quantity_of d' (f_product_id (formData c)) =
             Some (if f_type (formData c) = Entrada
                   then p_quantity sp + f_quantity (formData c)
                   else p_quantity sp - f_quantity (formData c)) \<and>
           db_products d' =
             map (\<lambda>r. if row_id r = f_product_id (formData c)
                       then r\<lparr>row_quantity :=
                              (if f_type (formData c) = Entrada
                               then p_quantity sp + f_quantity (formData c)
                               else p_quantity sp - f_quantity (formData c))\<rparr>
                       else r) (db_products d) \<and>
           db_movements d' = db_movements d @
             [\<lparr>m_product_id = f_product_id (formData c), m_type = f_type (formData c),
               m_quantity = f_quantity (formData c), m_responsible_id = user_id u,
               m_responsible_name = full_name pr,
               m_notes = (if f_notes (formData c) = '''' then None
                          else Some (f_notes (formData c)))\<rparr>] \<and>
           (in_sync c d \<and> distinct (map row_id (db_products d)) \<longrightarrow>
              quantity_of d (f_product_id (formData c)) = Some (p_quantity sp))"
proof (cases e c d rule: handleSubmit_cases)
  case (ok u pr sp)
  have fresh: "in_sync c d \<and> distinct (map row_id (db_products d)) \<longrightarrow>
      quantity_of d (f_product_id (formData c)) = Some (p_quantity sp)"
    using listed_in_sync[of c d] ok(3) by auto
  obtain q where q: "quantity_of d (f_product_id (formData c)) = Some q"
    using ok(7) quantity_of_Some_iff by blast
  have d': "d' = (set_quantity (f_product_id (formData c)) (newQuantity (formData c) sp) d)
                \<lparr>db_movements := db_movements d @ [new_movement c u pr]\<rparr>"
    using ok(8) assms(1) by simp
  have "quantity_of d' (f_product_id (formData c)) = Some (newQuantity (formData c) sp)"
    using q by (simp add: d' quantity_of_set_quantity)
  moreover have "db_products d' = db_products (set_quantity (f_product_id (formData c)) (newQuantity (formData c) sp) d)"
    by (simp add: d')
  moreover have "db_movements d' = db_movements d @ [new_movement c u pr]"
    by (simp add: d')
  ultimately show ?thesis
    using ok(1-3) fresh
    by (simp add: listed_def newQuantity_def new_movement_def set_quantity_def)
qed (use assms in auto)

theorem recordMovement_effect_witness:
  "succeeded (fst (handleSubmit env_ok (demo_client (demo_db 10) (demo_form Entrada 5)) (demo_db 10)))
   \<and> quantity_of (demo_db 10) ''p1'' = Some 10
   \<and> quantity_of (snd (snd (handleSubmit env_ok
         (demo_client (demo_db 10) (demo_form Entrada 5)) (demo_db 10)))) ''p1'' = Some 15
   \<and> db_movements (snd (snd (handleSubmit env_ok
         (demo_client (demo_db 10) (demo_form Entrada 5)) (demo_db 10)))) =
       [\<lparr>m_product_id = ''p1'', m_type = Entrada, m_quantity = 5, m_responsible_id = ''u1'',
         m_responsible_name = ''Ana'', m_notes = None\<rparr>]"
proof -
  let ?c = "demo_client (demo_db 10) (demo_form Entrada 5)"
  let ?r = "handleSubmit env_ok ?c (demo_db 10)"
  have run: "?r = (fst ?r, fst (snd ?r), snd (snd ?r))" by simp
  have s: "succeeded (fst ?r)" by (simp add: eval_defs)
  have l: "find (\<lambda>p. p_id p = f_product_id (formData ?c)) (products ?c) =
             Some \<lparr>p_id = ''p1'', p_name = ''Notebook'', p_quantity = 10\<rparr>"
    using demo_listed[of 10 Entrada 5] by (simp add: listed_def)
  have f: "formData ?c = demo_form Entrada 5" by (simp add: demo_user)
  from recordMovement_effect[OF run s]
  obtain sp where sp: "find (\<lambda>p. p_id p = f_product_id (formData ?c)) (products ?c) = Some sp"
    and q: "quantity_of (snd (snd ?r)) (f_product_id (formData ?c)) =
             Some (if f_type (formData ?c) = Entrada
                   then p_quantity sp + f_quantity (formData ?c)
                   else p_quantity sp - f_quantity (formData ?c))"
    and m: "length (db_movements (snd (snd ?r))) = Suc (length (db_movements (demo_db 10)))"
    by auto
  from sp l have "p_quantity sp = 10" by auto
  with q have 1: "quantity_of (snd (snd ?r)) ''p1'' = Some 15"
    by (simp add: f demo_form_sel)
  have 2: "db_movements (snd (snd ?r)) =
       [\<lparr>m_product_id = ''p1'', m_type = Entrada, m_quantity = 5, m_responsible_id = ''u1'',
         m_responsible_name = ''Ana'', m_notes = None\<rparr>]"
    by (simp add: eval_defs)
  from s 1 2 show ?thesis by (simp add: demo_quantity)
qed

text \<open>
  C5 as stated fails: a page that still lists quantity 10 for a product whose stored
  quantity is 3 submits an inbound movement of 5; it succeeds and the stored quantity
  becomes 15, not 3 + 5.
\<close>

theorem stale_list_effect_counterexample:
  "quantity_of (demo_db 3) ''p1'' = Some 3
   \<and> formData (demo_client (demo_db 10) (demo_form Entrada 5)) = demo_form Entrada 5
   \<and> succeeded (fst (handleSubmit env_ok (demo_client (demo_db 10) (demo_form Entrada 5)) (demo_db 3)))
   \<and> quantity_of (snd (snd (handleSubmit env_ok
        (demo_client (demo_db 10) (demo_form Entrada 5)) (demo_db 3)))) ''p1'' = Some 15"
  by (simp add: eval_defs)




text \<open>
  C9, as amended. \<open>handleSubmit\<close> reports through toasts. Every run shows the success
  toast or exactly one error toast, one of four pairwise different messages: not
  signed in, exactly when the user or the profile is missing; product not found,
  exactly when the page is signed in and the product is not in the page's list;
  insufficient stock, exactly when the page is signed in, the product is listed and an
  outbound quantity exceeds the listed quantity; and the single message of the catch
  block, exactly when the checks pass and the update is refused, the insert is refused
  or the store has no product row with that id. The catch block does not tell these
  causes apart, and no message for an invalid quantity exists.
\<close>

theorem error_kinds_distinguished:
  "(succeeded (fst (handleSubmit e c d)) \<or>
      fst (handleSubmit e c d) = [toast_error msg_unauthenticated] \<or>
      fst (handleSubmit e c d) = [toast_error msg_not_found] \<or>
      fst (handleSubmit e c d) = [toast_error msg_insufficient] \<or>
      fst (handleSubmit e c d) = [toast_error msg_register_failed])
   \<and> distinct [msg_unauthenticated, msg_not_found, msg_insufficient, msg_register_failed]
   \<and> (fst (handleSubmit e c d) = [toast_error msg_unauthenticated]
        \<longleftrightarrow> user c = None \<or> profile c = None)
   \<and> (fst (handleSubmit e c d) = [toast_error msg_not_found]
        \<longleftrightarrow> user c \<noteq> None \<and> profile c \<noteq> None \<and> listed c = None)
   \<and> (fst (handleSubmit e c d) = [toast_error msg_insufficient]
        \<longleftrightarrow> user c \<noteq> None \<and> profile c \<noteq> None \<and>
            (\<exists>sp. listed c = Some sp \<and> f_type (formData c) = Saida \<and>
                  p_quantity sp < f_quantity (formData c)))
   \<and> (fst (handleSubmit e c d) = [toast_error msg_register_failed]
        \<longleftrightarrow> user c \<noteq> None \<and> profile c \<noteq> None \<and>
            (\<exists>sp. listed c = Some sp \<and>
                  \<not> (f_type (formData c) = Saida \<and> p_quantity sp < f_quantity (formData c))) \<and>
            (update_error e \<or> insert_error e \<or>
             f_product_id (formData c) \<notin> row_id ` set (db_products d)))"
  using msgs_distinct
  by (cases e c d rule: handleSubmit_cases) (auto simp: msg_neq)

theorem error_kinds_distinguished_witness:
  "fst (handleSubmit env_ok (demo_client (demo_db 3) (demo_form Saida 5)) (demo_db 3))
     = [toast_error msg_insufficient]
   \<and> fst (handleSubmit env_update_fails (demo_client (demo_db 3) (demo_form Saida 2)) (demo_db 3))
     = [toast_error msg_register_failed]
   \<and> fst (handleSubmit env_ok (resetForm (demo_client (demo_db 3) (demo_form Saida 2))) (demo_db 3))
     = [toast_error msg_not_found]
   \<and> fst (handleSubmit env_ok ((demo_client (demo_db 3) (demo_form Saida 2))\<lparr>user := None\<rparr>)
        (demo_db 3))
     = [toast_error msg_unauthenticated]
   \<and> distinct [msg_unauthenticated, msg_not_found, msg_insufficient, msg_register_failed]"
proof -
  let ?c = "demo_client (demo_db 3) (demo_form Saida 5)"
  let ?c2 = "demo_client (demo_db 3) (demo_form Saida 2)"
  have l: "listed ?c = Some \<lparr>p_id = ''p1'', p_name = ''Notebook'', p_quantity = 3\<rparr>"
    "listed ?c2 = Some \<lparr>p_id = ''p1'', p_name = ''Notebook'', p_quantity = 3\<rparr>"
    by (rule demo_listed)+
  have n: "listed (resetForm ?c2) = None"
    by (simp add: listed_def resetForm_def demo_user demo_select)
  have f: "f_type (formData ?c) = Saida" "f_quantity (formData ?c) = 5"
    "f_type (formData ?c2) = Saida" "f_quantity (formData ?c2) = 2"
    "user ?c \<noteq> None" "profile ?c \<noteq> None" "user ?c2 \<noteq> None" "profile ?c2 \<noteq> None"
    "user (resetForm ?c2) \<noteq> None" "profile (resetForm ?c2) \<noteq> None"
    "user (?c2\<lparr>user := None\<rparr>) = None" "update_error env_update_fails"
    by (simp_all add: demo_user demo_form_def resetForm_def env_update_fails_def)
  from error_kinds_distinguished[of env_ok ?c "demo_db 3"] l(1) f
  have 1: "fst (handleSubmit env_ok ?c (demo_db 3)) = [toast_error msg_insufficient]"
    by simp
  from error_kinds_distinguished[of env_update_fails ?c2 "demo_db 3"] l(2) f
  have 2: "fst (handleSubmit env_update_fails ?c2 (demo_db 3)) = [toast_error msg_register_failed]"
    by simp
  from error_kinds_distinguished[of env_ok "resetForm ?c2" "demo_db 3"] n f
  have 3: "fst (handleSubmit env_ok (resetForm ?c2) (demo_db 3)) = [toast_error msg_not_found]"
    by simp
  from error_kinds_distinguished[of env_ok "?c2\<lparr>user := None\<rparr>" "demo_db 3"] f
  have 4: "fst (handleSubmit env_ok (?c2\<lparr>user := None\<rparr>) (demo_db 3)) = [toast_error msg_unauthenticated]"
    and 5: "distinct [msg_unauthenticated, msg_not_found, msg_insufficient, msg_register_failed]"
    by simp_all
  from 1 2 3 4 5 show ?thesis by blast
qed

text \<open>
  C9 as stated fails: a refused update, a refused insert and a product that the store
  no longer has all end in the same toast of the catch block, with three different
  stores as a result (unchanged, quantity written without a log row, unchanged).
\<close>

theorem catch_all_merges_causes_counterexample:
  "fst (handleSubmit env_update_fails (demo_client (demo_db 10) (demo_form Entrada 5)) (demo_db 10))
     = [toast_error msg_register_failed]
   \<and> snd (snd (handleSubmit env_update_fails
        (demo_client (demo_db 10) (demo_form Entrada 5)) (demo_db 10))) = demo_db 10
   \<and> fst (handleSubmit env_insert_fails (demo_client (demo_db 10) (demo_form Entrada 5)) (demo_db 10))
     = [toast_error msg_register_failed]
   \<and> snd (snd (handleSubmit env_insert_fails
        (demo_client (demo_db 10) (demo_form Entrada 5)) (demo_db 10))) = demo_db 15
   \<and> quantity_of demo_db_deleted ''p1'' = None
   \<and> fst (handleSubmit env_ok (demo_client (demo_db 10) (demo_form Entrada 5)) demo_db_deleted)
     = [toast_error msg_register_failed]
   \<and> snd (snd (handleSubmit env_ok
        (demo_client (demo_db 10) (demo_form Entrada 5)) demo_db_deleted)) = demo_db_deleted"
  by (simp add: eval_defs)

text \<open>
  C10. An outbound submission whose quantity equals the product's quantity passes the
  stock check (the check is a strict "greater than"); when the store accepts both
  writes it succeeds and leaves the product's stored quantity at exactly zero. This
  holds for the quantity the page lists for the product and, when the list is fresh,
  for the stored quantity.
\<close>

theorem outbound_exact_balance:
  "(user c \<noteq> None \<and> profile c \<noteq> None \<and>
      find (\<lambda>p. p_id p = f_product_id (formData c)) (products c) = Some sp \<and>
      f_product_id (formData c) \<in> row_id ` set (db_products d) \<and>
      f_type (formData c) = Saida \<and> f_quantity (formData c) = p_quantity sp \<and>
      \<not> update_error e \<and> \<not> insert_error e
      \<longrightarrow> succeeded (fst (handleSubmit e c d)) \<and>
          quantity_of (snd (snd (handleSubmit e c d))) (f_product_id (formData c)) = Some 0)
   \<and> (user c \<noteq> None \<and> profile c \<noteq> None \<and> in_sync c d \<and>
      distinct (map row_id (db_products d)) \<and>
      quantity_of d (f_product_id (formData c)) = Some (f_quantity (formData c)) \<and>
      f_type (formData c) = Saida \<and> \<not> update_error e \<and> \<not> insert_error e
      \<longrightarrow> succeeded (fst (handleSubmit e c d)) \<and>
          quantity_of (snd (snd (handleSubmit e c d))) (f_product_id (formData c)) = Some 0)"
proof -
  have exact: "succeeded (fst (handleSubmit e c d)) \<and>
      quantity_of (snd (snd (handleSubmit e c d))) (f_product_id (formData c)) = Some 0"
    if a: "user c = Some u" "profile c = Some pr" and l: "listed c = Some sp'"
      and t: "f_type (formData c) = Saida" and q: "f_quantity (formData c) = p_quantity sp'"
      and w: "\<not> update_error e" "\<not> insert_error e"
      and fk: "f_product_id (formData c) \<in> row_id ` set (db_products d)"
    for u pr sp'
  proof -
    have chk: "\<not> (f_type (formData c) = Saida \<and> f_quantity (formData c) > p_quantity sp')"
      using q by simp
    obtain b where b: "quantity_of d (f_product_id (formData c)) = Some b"
      using fk quantity_of_Some_iff by blast
    have nq: "newQuantity (formData c) sp' = 0"
      using t q by (simp add: newQuantity_def)
    show ?thesis
      using handleSubmit_ok[OF a l chk w fk refl] b nq
      by (simp add: quantity_of_set_quantity)
  qed
  show ?thesis
  proof (intro conjI impI)
    assume h: "user c \<noteq> None \<and> profile c \<noteq> None \<and>
      find (\<lambda>p. p_id p = f_product_id (formData c)) (products c) = Some sp \<and>
      f_product_id (formData c) \<in> row_id ` set (db_products d) \<and>
      f_type (formData c) = Saida \<and> f_quantity (formData c) = p_quantity sp \<and>
      \<not> update_error e \<and> \<not> insert_error e"
    then obtain u pr where "user c = Some u" "profile c = Some pr" by auto
    with h show "succeeded (fst (handleSubmit e c d))"
      and "quantity_of (snd (snd (handleSubmit e c d))) (f_product_id (formData c)) = Some 0"
      using exact[of u pr sp] by (simp_all add: listed_def)
  next
    assume h: "user c \<noteq> None \<and> profile c \<noteq> None \<and> in_sync c d \<and>
      distinct (map row_id (db_products d)) \<and>
      quantity_of d (f_product_id (formData c)) = Some (f_quantity (formData c)) \<and>
      f_type (formData c) = Saida \<and> \<not> update_error e \<and> \<not> insert_error e"
    then obtain u pr where a: "user c = Some u" "profile c = Some pr" by auto
    from h have "map_option p_quantity (listed c) = Some (f_quantity (formData c))"
      using listed_in_sync[of c d] by simp
    then obtain sp' where l: "listed c = Some sp'" "f_quantity (formData c) = p_quantity sp'"
      by auto
    have fk: "f_product_id (formData c) \<in> row_id ` set (db_products d)"
      using h quantity_of_Some_iff[of d "f_product_id (formData c)"] by auto
    from h a l fk show "succeeded (fst (handleSubmit e c d))"
      and "quantity_of (snd (snd (handleSubmit e c d))) (f_product_id (formData c)) = Some 0"
      using exact[of u pr sp'] by simp_all
  qed
qed

theorem outbound_exact_balance_witness:
  "quantity_of (demo_db 3) ''p1'' = Some 3
   \<and> f_quantity (formData (demo_client (demo_db 3) (demo_form Saida 3))) = 3
   \<and> succeeded (fst (handleSubmit env_ok (demo_client (demo_db 3) (demo_form Saida 3)) (demo_db 3)))
   \<and> quantity_of (snd (snd (handleSubmit env_ok
        (demo_client (demo_db 3) (demo_form Saida 3)) (demo_db 3)))) ''p1'' = Some 0"
proof -
  let ?c = "demo_client (demo_db 3) (demo_form Saida 3)"
  have f: "formData ?c = demo_form Saida 3" by (simp add: demo_user)
  have 1: "user ?c \<noteq> None \<and> profile ?c \<noteq> None \<and>
      find (\<lambda>p. p_id p = f_product_id (formData ?c)) (products ?c) =
        Some \<lparr>p_id = ''p1'', p_name = ''Notebook'', p_quantity = 3\<rparr> \<and>
      f_product_id (formData ?c) \<in> row_id ` set (db_products (demo_db 3)) \<and>
      f_type (formData ?c) = Saida \<and>
      f_quantity (formData ?c) = p_quantity \<lparr>p_id = ''p1'', p_name = ''Notebook'', p_quantity = 3\<rparr> \<and>
      \<not> update_error env_ok \<and> \<not> insert_error env_ok"
    using demo_listed[of 3 Saida 3]
    by (simp add: listed_def f demo_form_sel demo_user env_ok_def) (simp add: demo_db_def)
  have 2: "user ?c \<noteq> None \<and> profile ?c \<noteq> None \<and> in_sync ?c (demo_db 3) \<and>
      distinct (map row_id (db_products (demo_db 3))) \<and>
      quantity_of (demo_db 3) (f_product_id (formData ?c)) = Some (f_quantity (formData ?c)) \<and>
      f_type (formData ?c) = Saida \<and> \<not> update_error env_ok \<and> \<not> insert_error env_ok"
    by (simp add: f demo_form_sel demo_user demo_in_sync demo_quantity env_ok_def)
       (simp add: demo_db_def)
  from outbound_exact_balance[of ?c "\<lparr>p_id = ''p1'', p_name = ''Notebook'', p_quantity = 3\<rparr>"
      "demo_db 3" env_ok] 1 2
  have "succeeded (fst (handleSubmit env_ok ?c (demo_db 3))) \<and>
        quantity_of (snd (snd (handleSubmit env_ok ?c (demo_db 3)))) (f_product_id (formData ?c)) = Some 0"
    by blast
  then show ?thesis by (simp add: f demo_form_sel demo_quantity)
qed

section \<open>Claims about the read paths\<close>

text \<open>
  C7. The history filter stores in \<open>filteredMovements\<close> exactly the movements that
  match the search term (when it is not empty: the product name or the responsible name
  contains it, both lowercased) and the type filter (when it is not "all": the type is
  equal to it), in their original order: the result is a subsequence of the log, so a
  log sorted by descending creation time (or by any relation) stays sorted. The stored
  movements, the search term and the type filter are unchanged, and filtering again
  changes nothing.
\<close>

theorem filterMovements_spec:
  "filteredMovements (filterMovements lc h) =
     filter (matches lc (searchTerm h) (typeFilter h)) (movements h)
   \<and> subseq (filteredMovements (filterMovements lc h)) (movements h)
   \<and> (sorted_wrt R (movements h) \<longrightarrow> sorted_wrt R (filteredMovements (filterMovements lc h)))
   \<and> movements (filterMovements lc h) = movements h
   \<and> searchTerm (filterMovements lc h) = searchTerm h
   \<and> typeFilter (filterMovements lc h) = typeFilter h
   \<and> filterMovements lc (filterMovements lc h) = filterMovements lc h"
proof -
  have 1: "filteredMovements (filterMovements lc h) =
     filter (matches lc (searchTerm h) (typeFilter h)) (movements h)"
    by (rule filterMovements_filter)
  have 2: "movements (filterMovements lc h) = movements h"
    "searchTerm (filterMovements lc h) = searchTerm h"
    "typeFilter (filterMovements lc h) = typeFilter h"
    by (simp_all add: filterMovements_def Let_def)
  have 3: "filterMovements lc (filterMovements lc h) = filterMovements lc h"
    by (simp add: filterMovements_def Let_def)
  show ?thesis
    using 2 3 by (simp add: 1 sorted_wrt_filter)
qed

theorem filterMovements_spec_witness:
  "map h_id (filteredMovements (filterMovements toLowerCase_ascii demo_history)) = [''m4'', ''m2'']
   \<and> sorted_wrt newest_first (movements demo_history)
   \<and> sorted_wrt newest_first (filteredMovements (filterMovements toLowerCase_ascii demo_history))
   \<and> subseq (filteredMovements (filterMovements toLowerCase_ascii demo_history))
        (movements demo_history)"
proof -
  have 1: "map h_id (filteredMovements (filterMovements toLowerCase_ascii demo_history)) = [''m4'', ''m2'']"
    by (simp add: filterMovements_def demo_history_def toLowerCase_ascii_def Let_def)
  have 2: "sorted_wrt newest_first (movements demo_history)"
    by (simp add: demo_history_def newest_first_def)
  from filterMovements_spec[of toLowerCase_ascii demo_history newest_first] 1 2
  show ?thesis by blast
qed

text \<open>
  C8. The low stock list is sorted by ascending quantity, contains only products with
  quantity at most min_stock, has the length of that set of products cut at 5, is
  exactly that set when it has at most 5 products, and otherwise leaves out only
  products whose quantity is not below any listed one. It is computed from the product
  rows alone: changing the movement log does not change it.
\<close>

theorem lowStock_spec:
  "sorted (map row_quantity (lowStock (Some ps)))
   \<and> mset (lowStock (Some ps)) \<subseteq># mset (filter is_low ps)
   \<and> length (lowStock (Some ps)) = min 5 (length (filter is_low ps))
   \<and> (length (filter is_low ps) \<le> 5 \<longrightarrow> mset (lowStock (Some ps)) = mset (filter is_low ps))
   \<and> (\<forall>p \<in> set (lowStock (Some ps)).
        \<forall>p' \<in># mset (filter is_low ps) - mset (lowStock (Some ps)).
          row_quantity p \<le> row_quantity p')
   \<and> lowStock None = []
   \<and> low_stock_query (d\<lparr>db_movements := ms\<rparr>) = low_stock_query d"
proof -
  let ?xs = "sort_key row_quantity (filter is_low ps)"
  let ?low = "filter is_low ps"
  have eq: "lowStock (Some ps) = take 5 ?xs" by (rule lowStock_eq)
  have srt: "sorted (map row_quantity ?xs)" by (rule sorted_sort_key)
  have "mset ?xs = mset ?low" by (rule mset_sort)
  then have msplit: "mset ?low = mset (take 5 ?xs) + mset (drop 5 ?xs)"
    by (metis append_take_drop_id mset_append)
  have 1: "sorted (map row_quantity (lowStock (Some ps)))"
    unfolding eq using srt by (simp add: take_map[symmetric] sorted_wrt_take)
  have 2: "mset (lowStock (Some ps)) \<subseteq># mset ?low"
    unfolding eq msplit by (rule mset_subset_eq_add_left)
  have 3: "length (lowStock (Some ps)) = min 5 (length ?low)"
    unfolding eq by simp
  have 4: "length ?low \<le> 5 \<longrightarrow> mset (lowStock (Some ps)) = mset ?low"
    unfolding eq msplit by simp
  have diff: "mset ?low - mset (lowStock (Some ps)) = mset (drop 5 ?xs)"
    unfolding eq msplit by (rule add_diff_cancel_left')
  have "sorted (map row_quantity (take 5 ?xs) @ map row_quantity (drop 5 ?xs))"
    using srt by (metis append_take_drop_id map_append)
  then have "\<forall>p \<in> set (take 5 ?xs). \<forall>p' \<in> set (drop 5 ?xs). row_quantity p \<le> row_quantity p'"
    by (auto simp: sorted_append)
  then have 5: "\<forall>p \<in> set (lowStock (Some ps)).
        \<forall>p' \<in># mset ?low - mset (lowStock (Some ps)). row_quantity p \<le> row_quantity p'"
    unfolding diff unfolding eq by simp
  have 6: "lowStock None = []" by (simp add: lowStock_def sort_cmp_def)
  have 7: "low_stock_query (d\<lparr>db_movements := ms\<rparr>) = low_stock_query d"
    by (simp add: low_stock_query_def)
  from 1 2 3 4 5 6 7 show ?thesis by blast
qed

theorem lowStock_spec_witness:
  "map row_id (low_stock_query (demo_db 20)) = [''p2'']
   \<and> map row_id (low_stock_query (snd (snd (handleSubmit env_ok
        (demo_client (demo_db 20) (demo_form Saida 15)) (demo_db 20))))) = [''p1'', ''p2'']
   \<and> length (filter is_low (db_products (demo_db 5))) \<le> 5
   \<and> mset (lowStock (Some (db_products (demo_db 5)))) = mset (filter is_low (db_products (demo_db 5)))
   \<and> length (filter is_low demo_products) = 7
   \<and> map row_id (lowStock (Some demo_products)) = [''c'', ''h'', ''d'', ''f'', ''a'']
   \<and> map row_quantity (lowStock (Some demo_products)) = [0, 1, 2, 2, 4]
   \<and> sorted (map row_quantity (lowStock (Some demo_products)))
   \<and> length (lowStock (Some demo_products)) = 5"
proof -
  have 1: "map row_id (low_stock_query (demo_db 20)) = [''p2'']"
    by (simp add: low_stock_query_def lowStock_def sort_cmp_def demo_db_def)
  have 2: "map row_id (low_stock_query (snd (snd (handleSubmit env_ok
        (demo_client (demo_db 20) (demo_form Saida 15)) (demo_db 20))))) = [''p1'', ''p2'']"
    by (simp add: eval_defs low_stock_query_def lowStock_def sort_cmp_def)
  have 3: "length (filter is_low (db_products (demo_db 5))) \<le> 5"
    by (simp add: is_low_def demo_db_def)
  have 4: "length (filter is_low demo_products) = 7"
    by (simp add: is_low_def demo_products_def)
  have 5: "map row_id (lowStock (Some demo_products)) = [''c'', ''h'', ''d'', ''f'', ''a'']"
    "map row_quantity (lowStock (Some demo_products)) = [0, 1, 2, 2, 4]"
    by (simp_all add: lowStock_def sort_cmp_def demo_products_def)
  from lowStock_spec[of "db_products (demo_db 5)"] 3
  have 6: "mset (lowStock (Some (db_products (demo_db 5)))) =
           mset (filter is_low (db_products (demo_db 5)))"
    by blast
  from lowStock_spec[of demo_products] 4
  have 7: "sorted (map row_quantity (lowStock (Some demo_products)))"
    "length (lowStock (Some demo_products)) = 5"
    by simp_all
  from 1 2 3 4 5 6 7 show ?thesis by blast
qed

end
